theory Spec2Isabelle
  imports Main "HOL-Library.Word"
begin

unbundle bit_operations_syntax

section \<open>Machine types\<close>

type_synonym uint8_t = "8 word"
type_synonym uint16_t = "16 word"

section \<open>Character generator (character_generator.c)\<close>

text \<open>
  The enum \<open>chars\<close> has \<open>uint8_t\<close> as its underlying type; \<open>chars_val\<close> gives the
  value of each enumerator.
\<close>

datatype chars =
    INVALID_CHAR | ZERO | ONE | TWO | THREE | FOUR | FIVE | SIX | SEVEN | EIGHT | NINE
  | H_CHAR | F_CHAR | C_CHAR | DASH

fun chars_val :: "chars \<Rightarrow> uint8_t" where
  "chars_val INVALID_CHAR = 0xFF"
| "chars_val ZERO = 0xC0"
| "chars_val ONE = 0xF9"
| "chars_val TWO = 0xA4"
| "chars_val THREE = 0xB0"
| "chars_val FOUR = 0x99"
| "chars_val FIVE = 0x92"
| "chars_val SIX = 0x82"
| "chars_val SEVEN = 0xF8"
| "chars_val EIGHT = 0x80"
| "chars_val NINE = 0x90"
| "chars_val H_CHAR = 0x89"
| "chars_val F_CHAR = 0x8E"
| "chars_val C_CHAR = 0xC6"
| "chars_val DASH = 0xBF"

definition DIGIT_NUM :: nat where
  "DIGIT_NUM = 4"

text \<open>The lookup table \<open>char_mappings\<close>, in the order of the source.\<close>

definition char_mappings :: "(char \<times> chars) list" where
  "char_mappings =
    [(CHR ''0'', ZERO), (CHR ''1'', ONE), (CHR ''2'', TWO), (CHR ''3'', THREE),
     (CHR ''4'', FOUR), (CHR ''5'', FIVE), (CHR ''6'', SIX), (CHR ''7'', SEVEN),
     (CHR ''8'', EIGHT), (CHR ''9'', NINE),
     (CHR ''H'', H_CHAR), (CHR ''h'', H_CHAR),
     (CHR ''F'', F_CHAR), (CHR ''f'', F_CHAR),
     (CHR ''C'', C_CHAR), (CHR ''c'', C_CHAR),
     (CHR ''-'', DASH)]"

text \<open>
  The inner loop of \<open>char_gen_transmit\<close>: \<open>code\<close> starts as \<open>INVALID_CHAR\<close>, the table
  is scanned from the front and the scan stops (\<open>break\<close>) at the first entry whose
  character equals the digit.
\<close>

fun find_code :: "(char \<times> chars) list \<Rightarrow> char \<Rightarrow> chars" where
  "find_code [] c = INVALID_CHAR"
| "find_code ((ch, code) # rest) c = (if ch = c then code else find_code rest c)"

datatype period_status = PERIOD_ON | PERIOD_OFF

text \<open>
  \<open>segment_data = (uint8_t)code; if (period == PERIOD_ON) segment_data &= ~(1 << 7);\<close>
\<close>

definition segment_data :: "char \<Rightarrow> period_status \<Rightarrow> uint8_t" where
  "segment_data c p =
     (let sd = chars_val (find_code char_mappings c)
      in if p = PERIOD_ON then sd AND NOT (push_bit 7 1) else sd)"

text \<open>
  \<open>out_data[i] = (uint16_t)(segment_data << 8) | (1 << i);\<close> for \<open>i < 4\<close> every
  intermediate value of the promoted \<open>int\<close> arithmetic fits into 16 bits.
\<close>

definition out_word :: "uint8_t \<Rightarrow> nat \<Rightarrow> uint16_t" where
  "out_word sd i = push_bit 8 (ucast sd) OR push_bit i 1"


record char_gen_data_t =
  digits :: "char list"
  periods :: "period_status list"
  brightness :: "int list option"

text \<open>
  One iteration of the outer loop of \<open>char_gen_transmit\<close>. The arrays behind
  \<open>config->digits\<close> and \<open>config->periods\<close> are lists here; a read past their end
  is undefined in C and \<open>None\<close> here.
\<close>

definition encode_digit :: "char_gen_data_t \<Rightarrow> nat \<Rightarrow> uint16_t option" where
  "encode_digit cfg i =
     (if i < length (digits cfg) \<and> i < length (periods cfg)
      then Some (out_word (segment_data (digits cfg ! i) (periods cfg ! i)) i)
      else None)"

definition encode_frame :: "char_gen_data_t \<Rightarrow> uint16_t list option" where
  "encode_frame cfg = those (map (encode_digit cfg) [0..<DIGIT_NUM])"

section \<open>7-segment driver (driver_7_seg.c)\<close>

subsection \<open>Types\<close>

datatype driver_7_seg_status_t =
    DRIVER_7_SEG_STATUS_OK
  | DRIVER_7_SEG_STATUS_NOT_INITIALIZED
  | DRIVER_7_SEG_STATUS_SEND_ERROR
  | DRIVER_7_SEG_STATUS_INVALID_PARAMETERS
  | DRIVER_7_SEG_STATUS_BUSY

text \<open>
  \<open>driver_7_seg_brightness_t\<close> is a C enum, that is an integer; the driver stores
  \<open>(uint8_t)brightness_level[i]\<close>.
\<close>

type_synonym driver_7_seg_brightness_t = int

definition LEVEL_5_MAX :: driver_7_seg_brightness_t where "LEVEL_5_MAX = 0"
definition LEVEL_4 :: driver_7_seg_brightness_t where "LEVEL_4 = 1"
definition LEVEL_3 :: driver_7_seg_brightness_t where "LEVEL_3 = 5"
definition LEVEL_2 :: driver_7_seg_brightness_t where "LEVEL_2 = 15"
definition LEVEL_1_MIN :: driver_7_seg_brightness_t where "LEVEL_1_MIN = 30"
definition NOT_USED :: driver_7_seg_brightness_t where "NOT_USED = 255"

definition NUMBER_OF_SEGMENTS :: nat where
  "NUMBER_OF_SEGMENTS = 4"

text \<open>
  Pointers to HAL objects are opaque addresses; \<open>None\<close> is \<open>NULL\<close>. The field
  \<open>initialized\<close> of the zero-initialised \<open>config\<close> holds 0, which is no enumerator of
  \<open>driver_7_seg_status_t\<close> (they start at 1): \<open>None\<close> stands for that value.
\<close>

type_synonym handle = "nat option"

record driver_7_seg_config_t =
  CS_GPIO_Port :: handle
  CS_GPIO_Pin :: uint16_t
  hspi :: handle
  htim :: handle
  initialized :: "driver_7_seg_status_t option"

record driver_7_seg_segment_buffer_t =
  data :: "uint16_t list"
  skip_buff :: "uint8_t list"

record driver_7_seg_display_buffers_t =
  buf0 :: driver_7_seg_segment_buffer_t
  buf1 :: driver_7_seg_segment_buffer_t
  skip_counter :: "uint8_t list"

datatype driver_7_seg_transfer_state_t =
    STATE_PREPARE
  | STATE_START_SENDING
  | STATE_WAIT_SPI
  | STATE_POST
  | STATE_WAIT

text \<open>
  The static pointers \<open>data_buf\<close> and \<open>skip_buf\<close> of the timer callback are \<open>NULL\<close>
  or point into one of the two buffers: \<open>Some BUF0\<close> is \<open>buffers.buf0.data\<close>
  (respectively \<open>buffers.buf0.skip_buff\<close>).
\<close>

datatype buf_ref = BUF0 | BUF1

datatype GPIO_PinState = GPIO_PIN_RESET | GPIO_PIN_SET

datatype HAL_StatusTypeDef = HAL_OK | HAL_ERROR | HAL_BUSY | HAL_TIMEOUT

datatype TIM_Instance = TIM6 | TIM_other nat

text \<open>
  What \<open>HAL_SPI_Transmit_IT\<close> is given: the address of a word of a buffer
  (\<open>&data_buf[i]\<close>) or the address of the constant \<open>void_data\<close>.
\<close>

datatype spi_source = SRC_DATA buf_ref nat | SRC_VOID

record spi_call =
  tx_segment :: uint8_t
  tx_source :: spi_source
  tx_word :: uint16_t

record gpio_call =
  gpio_port :: handle
  gpio_pin :: uint16_t
  gpio_state :: GPIO_PinState

text \<open>
  The file's globals, the static locals of the timer callback, and the calls made into
  the HAL so far (the driver's only effects outside its own memory).
\<close>

record driver =
  config :: driver_7_seg_config_t
  buffers :: driver_7_seg_display_buffers_t
  spi_tranfer_complete :: uint8_t
  new_buffer_ready :: uint8_t
  current_active_buf_index :: uint8_t
  state :: driver_7_seg_transfer_state_t
  data_buf :: "buf_ref option"
  skip_buf :: "buf_ref option"
  current_segment_index :: uint8_t
  gpio_calls :: "gpio_call list"
  spi_calls :: "spi_call list"
  tim_start_calls :: "handle list"

definition zero_buffer :: driver_7_seg_segment_buffer_t where
  "zero_buffer = \<lparr>data = replicate NUMBER_OF_SEGMENTS 0, skip_buff = replicate NUMBER_OF_SEGMENTS 0\<rparr>"

text \<open>The state at reset: every static object is zero-initialised, no HAL call made.\<close>

definition driver_reset :: driver where
  "driver_reset =
    \<lparr>config = \<lparr>CS_GPIO_Port = None, CS_GPIO_Pin = 0, hspi = None, htim = None, initialized = None\<rparr>,
     buffers = \<lparr>buf0 = zero_buffer, buf1 = zero_buffer, skip_counter = replicate NUMBER_OF_SEGMENTS 0\<rparr>,
     spi_tranfer_complete = 0,
     new_buffer_ready = 0,
     current_active_buf_index = 0,
     state = STATE_PREPARE,
     data_buf = None,
     skip_buf = None,
     current_segment_index = 0,
     gpio_calls = [],
     spi_calls = [],
     tim_start_calls = []\<rparr>"

subsection \<open>HAL calls\<close>

definition HAL_GPIO_WritePin :: "handle \<Rightarrow> uint16_t \<Rightarrow> GPIO_PinState \<Rightarrow> driver \<Rightarrow> driver" where
  "HAL_GPIO_WritePin port pin st s =
     s\<lparr>gpio_calls := gpio_calls s @ [\<lparr>gpio_port = port, gpio_pin = pin, gpio_state = st\<rparr>]\<rparr>"

definition HAL_SPI_Transmit_IT :: "uint8_t \<Rightarrow> spi_source \<Rightarrow> uint16_t \<Rightarrow> driver \<Rightarrow> driver" where
  "HAL_SPI_Transmit_IT seg src w s =
     s\<lparr>spi_calls := spi_calls s @ [\<lparr>tx_segment = seg, tx_source = src, tx_word = w\<rparr>]\<rparr>"

definition HAL_TIM_Base_Start_IT :: "handle \<Rightarrow> driver \<Rightarrow> driver" where
  "HAL_TIM_Base_Start_IT h s = s\<lparr>tim_start_calls := tim_start_calls s @ [h]\<rparr>"

subsection \<open>Buffer access\<close>

definition get_buf :: "buf_ref \<Rightarrow> driver \<Rightarrow> driver_7_seg_segment_buffer_t" where
  "get_buf b s = (case b of BUF0 \<Rightarrow> buf0 (buffers s) | BUF1 \<Rightarrow> buf1 (buffers s))"

definition set_buf :: "buf_ref \<Rightarrow> driver_7_seg_segment_buffer_t \<Rightarrow> driver \<Rightarrow> driver" where
  "set_buf b v s =
     (case b of
        BUF0 \<Rightarrow> s\<lparr>buffers := (buffers s)\<lparr>buf0 := v\<rparr>\<rparr>
      | BUF1 \<Rightarrow> s\<lparr>buffers := (buffers s)\<lparr>buf1 := v\<rparr>\<rparr>)"

text \<open>The buffer \<open>current_active_buf_index\<close> designates: \<open>buf0\<close> when it is 0, else \<open>buf1\<close>.\<close>

definition active_buf :: "driver \<Rightarrow> buf_ref" where
  "active_buf s = (if current_active_buf_index s = 0 then BUF0 else BUF1)"

definition other_buf :: "buf_ref \<Rightarrow> buf_ref" where
  "other_buf b = (case b of BUF0 \<Rightarrow> BUF1 | BUF1 \<Rightarrow> BUF0)"

subsection \<open>driver_7_seg_init\<close>

text \<open>
  \<open>tim_result\<close> is what \<open>HAL_TIM_Base_Start_IT\<close> returns. The chip-select pin is
  written through the port and pin that \<open>config\<close> held before the call.
\<close>

definition driver_7_seg_init ::
  "handle \<Rightarrow> handle \<Rightarrow> handle \<Rightarrow> uint16_t \<Rightarrow> HAL_StatusTypeDef \<Rightarrow> driver
     \<Rightarrow> driver_7_seg_status_t \<times> driver" where
  "driver_7_seg_init hspi_p htim_p GPIOx GPIO_Pin tim_result s =
     (if hspi_p = None \<or> htim_p = None \<or> GPIOx = None
      then (DRIVER_7_SEG_STATUS_NOT_INITIALIZED, s)
      else
        let s1 = HAL_GPIO_WritePin (CS_GPIO_Port (config s)) (CS_GPIO_Pin (config s)) GPIO_PIN_SET s;
            s2 = s1\<lparr>config := (config s1)\<lparr>CS_GPIO_Port := GPIOx, CS_GPIO_Pin := GPIO_Pin,
                                            hspi := hspi_p, htim := htim_p\<rparr>\<rparr>;
            s3 = set_buf BUF0
                   ((get_buf BUF0 s2)\<lparr>skip_buff :=
                       fold (\<lambda>i sb. sb[i := word_of_int NOT_USED]) [0..<NUMBER_OF_SEGMENTS]
                         (skip_buff (get_buf BUF0 s2))\<rparr>) s2;
            s4 = HAL_TIM_Base_Start_IT (htim (config s3)) s3
        in if tim_result \<noteq> HAL_OK
           then (DRIVER_7_SEG_STATUS_NOT_INITIALIZED, s4)
           else (DRIVER_7_SEG_STATUS_OK,
                 s4\<lparr>config := (config s4)\<lparr>initialized := Some DRIVER_7_SEG_STATUS_OK\<rparr>\<rparr>))"


subsection \<open>HAL_TIM_PeriodElapsedCallback\<close>

text \<open>
  One definition per \<open>case\<close> of the \<open>switch\<close>. \<open>None\<close> is undefined behaviour: a read
  through a \<open>NULL\<close> pointer or past the end of an array.
\<close>

definition case_STATE_PREPARE :: "driver \<Rightarrow> driver option" where
  "case_STATE_PREPARE s =
     (let s1 = (if new_buffer_ready s = 1
                then s\<lparr>current_active_buf_index := current_active_buf_index s XOR 1,
                       new_buffer_ready := 0\<rparr>
                else s);
          s2 = s1\<lparr>data_buf := Some (if current_active_buf_index s1 = 0 then BUF0 else BUF1),
                  skip_buf := Some (if current_active_buf_index s1 = 0 then BUF0 else BUF1)\<rparr>;
          s3 = HAL_GPIO_WritePin (CS_GPIO_Port (config s2)) (CS_GPIO_Pin (config s2)) GPIO_PIN_RESET s2
      in Some (s3\<lparr>state := STATE_START_SENDING\<rparr>))"

text \<open>
  The comparison \<open>skip_buf[i] != NOT_USED\<close> is made on the promoted integers. The word
  handed to the SPI is recorded as it stands in the buffer at the time of the call.
\<close>

definition case_STATE_START_SENDING :: "driver \<Rightarrow> driver option" where
  "case_STATE_START_SENDING s =
     (let s1 = s\<lparr>spi_tranfer_complete := 0\<rparr>;
          i = unat (current_segment_index s1)
      in case skip_buf s1 of
           None \<Rightarrow> None
         | Some sb \<Rightarrow>
             if \<not> (i < length (skip_buff (get_buf sb s1)) \<and> i < length (skip_counter (buffers s1)))
             then None
             else if uint (skip_buff (get_buf sb s1) ! i) \<noteq> NOT_USED
                     \<and> skip_counter (buffers s1) ! i \<ge> skip_buff (get_buf sb s1) ! i
             then (case data_buf s1 of
                     None \<Rightarrow> None
                   | Some db \<Rightarrow>
                       if \<not> i < length (data (get_buf db s1)) then None
                       else
                         let s2 = HAL_SPI_Transmit_IT (current_segment_index s1) (SRC_DATA db i)
                                    (data (get_buf db s1) ! i) s1;
                             s3 = s2\<lparr>buffers := (buffers s2)
                                    \<lparr>skip_counter := (skip_counter (buffers s2))[i := 0]\<rparr>\<rparr>
                         in Some (s3\<lparr>state := STATE_WAIT_SPI\<rparr>))
             else
               let s2 = HAL_SPI_Transmit_IT (current_segment_index s1) SRC_VOID 0 s1;
                   s3 = s2\<lparr>buffers := (buffers s2)
                          \<lparr>skip_counter := (skip_counter (buffers s2))
                              [i := skip_counter (buffers s2) ! i + 1]\<rparr>\<rparr>
               in Some (s3\<lparr>state := STATE_WAIT_SPI\<rparr>))"

definition case_STATE_WAIT_SPI :: "driver \<Rightarrow> driver option" where
  "case_STATE_WAIT_SPI s =
     (if spi_tranfer_complete s \<noteq> 0 then Some (s\<lparr>state := STATE_POST\<rparr>) else Some s)"

definition case_STATE_POST :: "driver \<Rightarrow> driver option" where
  "case_STATE_POST s =
     (let s1 = HAL_GPIO_WritePin (CS_GPIO_Port (config s)) (CS_GPIO_Pin (config s)) GPIO_PIN_SET s
      in Some (s1\<lparr>state := STATE_WAIT\<rparr>))"

definition case_STATE_WAIT :: "driver \<Rightarrow> driver option" where
  "case_STATE_WAIT s =
     Some (s\<lparr>current_segment_index :=
                word_of_nat ((unat (current_segment_index s) + 1) mod NUMBER_OF_SEGMENTS),
             state := STATE_PREPARE\<rparr>)"

text \<open>The argument is \<open>htim->Instance\<close>.\<close>

definition HAL_TIM_PeriodElapsedCallback :: "TIM_Instance \<Rightarrow> driver \<Rightarrow> driver option" where
  "HAL_TIM_PeriodElapsedCallback inst s =
     (if inst = TIM6
      then (case state s of
              STATE_PREPARE \<Rightarrow> case_STATE_PREPARE s
            | STATE_START_SENDING \<Rightarrow> case_STATE_START_SENDING s
            | STATE_WAIT_SPI \<Rightarrow> case_STATE_WAIT_SPI s
            | STATE_POST \<Rightarrow> case_STATE_POST s
            | STATE_WAIT \<Rightarrow> case_STATE_WAIT s)
      else Some s)"

subsection \<open>HAL_SPI_TxCpltCallback\<close>

definition HAL_SPI_TxCpltCallback :: "handle \<Rightarrow> driver \<Rightarrow> driver" where
  "HAL_SPI_TxCpltCallback h s =
     (if h = hspi (config s) then s\<lparr>spi_tranfer_complete := 1\<rparr> else s)"

subsection \<open>driver_7_seg_send_buffer, run without interruption\<close>

text \<open>
  \<open>while ( new_buffer_ready != 0 ) {}\<close>: nothing in the loop changes the flag, so run
  on its own the loop either falls through at once or never ends (\<open>None\<close>).
\<close>

partial_function (option) wait_new_buffer_ready :: "driver \<Rightarrow> driver option" where
  "wait_new_buffer_ready s =
     (if new_buffer_ready s \<noteq> 0 then wait_new_buffer_ready s else Some s)"

declare wait_new_buffer_ready.simps [code]

text \<open>The two stores of one iteration of the copy loop, into buffer \<open>b\<close>.\<close>

definition store_data :: "buf_ref \<Rightarrow> nat \<Rightarrow> uint16_t \<Rightarrow> driver \<Rightarrow> driver" where
  "store_data b i w s = set_buf b ((get_buf b s)\<lparr>data := (data (get_buf b s))[i := w]\<rparr>) s"

definition store_skip :: "buf_ref \<Rightarrow> nat \<Rightarrow> uint8_t \<Rightarrow> driver \<Rightarrow> driver" where
  "store_skip b i t s = set_buf b ((get_buf b s)\<lparr>skip_buff := (skip_buff (get_buf b s))[i := t]\<rparr>) s"

fun copy_loop :: "buf_ref \<Rightarrow> uint16_t list \<Rightarrow> int list \<Rightarrow> nat list \<Rightarrow> driver \<Rightarrow> driver option" where
  "copy_loop b d br [] s = Some s"
| "copy_loop b d br (i # rest) s =
     (if i < length d \<and> i < length br
      then copy_loop b d br rest (store_skip b i (word_of_int (br ! i)) (store_data b i (d ! i) s))
      else None)"

definition driver_7_seg_send_buffer ::
  "uint16_t list option \<Rightarrow> int list option \<Rightarrow> uint8_t \<Rightarrow> driver
     \<Rightarrow> (driver_7_seg_status_t \<times> driver) option" where
  "driver_7_seg_send_buffer data_p brightness_level size_p s =
     (if initialized (config s) \<noteq> Some DRIVER_7_SEG_STATUS_OK
      then Some (DRIVER_7_SEG_STATUS_NOT_INITIALIZED, s)
      else
        case (data_p, brightness_level) of
          (Some d, Some br) \<Rightarrow>
            if unat size_p \<noteq> NUMBER_OF_SEGMENTS
            then Some (DRIVER_7_SEG_STATUS_INVALID_PARAMETERS, s)
            else
              (case wait_new_buffer_ready s of
                 None \<Rightarrow> None
               | Some s1 \<Rightarrow>
                   (case copy_loop (if current_active_buf_index s1 = 0 then BUF1 else BUF0)
                           d br [0..<NUMBER_OF_SEGMENTS] s1 of
                      None \<Rightarrow> None
                    | Some s2 \<Rightarrow> Some (DRIVER_7_SEG_STATUS_OK, s2\<lparr>new_buffer_ready := 1\<rparr>)))
        | _ \<Rightarrow> Some (DRIVER_7_SEG_STATUS_INVALID_PARAMETERS, s))"

subsection \<open>char_gen_init and char_gen_transmit\<close>

datatype char_generator_status_t =
    CHAR_GEN_STATUS_OK
  | CHAR_GEN_STATUS_INVALID_PARAMETERS
  | CHAR_GEN_STATUS_NOT_INITIALIZED
  | CHAR_GEN_STATUS_NOT_TRANSMITTED

text \<open>
  \<open>api_7_seg\<close> is a constant table whose entries are \<open>driver_7_seg_init\<close> and
  \<open>driver_7_seg_send_buffer\<close>. A failed \<open>assert\<close> aborts the program: no status is
  returned (\<open>None\<close>).
\<close>

definition char_gen_init ::
  "handle \<Rightarrow> handle \<Rightarrow> handle \<Rightarrow> uint16_t \<Rightarrow> HAL_StatusTypeDef \<Rightarrow> driver
     \<Rightarrow> (char_generator_status_t \<times> driver) option" where
  "char_gen_init hspi_p htim_p GPIOx GPIO_Pin tim_result s =
     (if hspi_p = None \<or> htim_p = None \<or> GPIOx = None then None
      else
        case driver_7_seg_init hspi_p htim_p GPIOx GPIO_Pin tim_result s of
          (st, s') \<Rightarrow>
            if st \<noteq> DRIVER_7_SEG_STATUS_OK
            then Some (CHAR_GEN_STATUS_NOT_INITIALIZED, s')
            else Some (CHAR_GEN_STATUS_OK, s'))"

definition char_gen_transmit ::
  "char_gen_data_t option \<Rightarrow> driver \<Rightarrow> (char_generator_status_t \<times> driver) option" where
  "char_gen_transmit config_p s =
     (case config_p of
        None \<Rightarrow> None
      | Some cfg \<Rightarrow>
          (case encode_frame cfg of
             None \<Rightarrow> None
           | Some out_data \<Rightarrow>
               (case driver_7_seg_send_buffer (Some out_data) (brightness cfg)
                       (word_of_nat DIGIT_NUM) s of
                  None \<Rightarrow> None
                | Some (st, s') \<Rightarrow>
                    if st \<noteq> DRIVER_7_SEG_STATUS_OK
                    then Some (CHAR_GEN_STATUS_NOT_TRANSMITTED, s')
                    else Some (CHAR_GEN_STATUS_OK, s'))))"


section \<open>Interrupts and calls as events\<close>

text \<open>
  On the single core an interrupt handler runs to completion between two steps of the
  main context. The two handlers of the driver:
\<close>

datatype irq = IRQ_TIM TIM_Instance | IRQ_SPI_TX_CPLT handle

fun irq_step :: "irq \<Rightarrow> driver \<Rightarrow> driver option" where
  "irq_step (IRQ_TIM inst) s = HAL_TIM_PeriodElapsedCallback inst s"
| "irq_step (IRQ_SPI_TX_CPLT h) s = Some (HAL_SPI_TxCpltCallback h s)"

fun irq_run :: "irq list \<Rightarrow> driver \<Rightarrow> driver option" where
  "irq_run [] s = Some s"
| "irq_run (e # es) s = (case irq_step e s of None \<Rightarrow> None | Some s' \<Rightarrow> irq_run es s')"

text \<open>
  Events of a whole run: an interrupt, or a call of the main context that runs to its
  return with no interrupt in between (a call that does not return gives \<open>None\<close>).
\<close>

datatype event =
    EV_IRQ irq
  | EV_INIT handle handle handle uint16_t HAL_StatusTypeDef
  | EV_SEND_BUFFER "uint16_t list option" "int list option" uint8_t
  | EV_TRANSMIT "char_gen_data_t option"

fun event_step :: "event \<Rightarrow> driver \<Rightarrow> driver option" where
  "event_step (EV_IRQ e) s = irq_step e s"
| "event_step (EV_INIT h t g p r) s = Some (snd (driver_7_seg_init h t g p r s))"
| "event_step (EV_SEND_BUFFER d b n) s = map_option snd (driver_7_seg_send_buffer d b n s)"
| "event_step (EV_TRANSMIT c) s = map_option snd (char_gen_transmit c s)"

fun run :: "event list \<Rightarrow> driver \<Rightarrow> driver option" where
  "run [] s = Some s"
| "run (e # es) s = (case event_step e s of None \<Rightarrow> None | Some s' \<Rightarrow> run es s')"

subsection \<open>driver_7_seg_send_buffer, statement by statement\<close>

text \<open>
  To see the call interleaved with interrupts it is cut at its statements. The position
  in the function body:
  \<^item> \<open>PC_CHECK\<close>: the two \<open>if\<close>s at entry;
  \<^item> \<open>PC_WAIT\<close>: one test of \<open>while ( new_buffer_ready != 0 )\<close>;
  \<^item> \<open>PC_SELECT\<close>: \<open>if (current_active_buf_index == 0)\<close>;
  \<^item> \<open>PC_STORE_DATA b i\<close>: the loop test \<open>i < NUMBER_OF_SEGMENTS\<close> and the store to
    \<open>data[i]\<close> of buffer \<open>b\<close>; \<open>PC_STORE_SKIP b i\<close>: the store to \<open>skip_buff[i]\<close>
    and \<open>i++\<close>;
  \<^item> \<open>PC_SET_READY\<close>: \<open>new_buffer_ready = 1\<close>;
  \<^item> \<open>PC_RETURN st\<close>: the call has returned \<open>st\<close>.
\<close>

datatype send_pc =
    PC_CHECK
  | PC_WAIT
  | PC_SELECT
  | PC_STORE_DATA buf_ref nat
  | PC_STORE_SKIP buf_ref nat
  | PC_SET_READY
  | PC_RETURN driver_7_seg_status_t

fun send_buffer_step ::
  "uint16_t list option \<Rightarrow> int list option \<Rightarrow> uint8_t \<Rightarrow> send_pc \<times> driver
     \<Rightarrow> (send_pc \<times> driver) option" where
  "send_buffer_step data_p bl size_p (PC_CHECK, s) =
     Some (if initialized (config s) \<noteq> Some DRIVER_7_SEG_STATUS_OK
           then (PC_RETURN DRIVER_7_SEG_STATUS_NOT_INITIALIZED, s)
           else if data_p = None \<or> bl = None \<or> unat size_p \<noteq> NUMBER_OF_SEGMENTS
           then (PC_RETURN DRIVER_7_SEG_STATUS_INVALID_PARAMETERS, s)
           else (PC_WAIT, s))"
| "send_buffer_step data_p bl size_p (PC_WAIT, s) =
     Some (if new_buffer_ready s \<noteq> 0 then (PC_WAIT, s) else (PC_SELECT, s))"
| "send_buffer_step data_p bl size_p (PC_SELECT, s) =
     Some (if current_active_buf_index s = 0 then (PC_STORE_DATA BUF1 0, s)
           else (PC_STORE_DATA BUF0 0, s))"
| "send_buffer_step data_p bl size_p (PC_STORE_DATA b i, s) =
     (if \<not> i < NUMBER_OF_SEGMENTS then Some (PC_SET_READY, s)
      else case data_p of
             None \<Rightarrow> None
           | Some d \<Rightarrow> if i < length d then Some (PC_STORE_SKIP b i, store_data b i (d ! i) s)
                       else None)"
| "send_buffer_step data_p bl size_p (PC_STORE_SKIP b i, s) =
     (case bl of
        None \<Rightarrow> None
      | Some br \<Rightarrow> if i < length br
                   then Some (PC_STORE_DATA b (i + 1), store_skip b i (word_of_int (br ! i)) s)
                   else None)"
| "send_buffer_step data_p bl size_p (PC_SET_READY, s) =
     Some (PC_RETURN DRIVER_7_SEG_STATUS_OK, s\<lparr>new_buffer_ready := 1\<rparr>)"
| "send_buffer_step data_p bl size_p (PC_RETURN st, s) = Some (PC_RETURN st, s)"

text \<open>A schedule says who moves next: the call (one statement) or an interrupt.\<close>

datatype sched = MAIN | INTR irq

fun sched_step ::
  "uint16_t list option \<Rightarrow> int list option \<Rightarrow> uint8_t \<Rightarrow> sched \<Rightarrow> send_pc \<times> driver
     \<Rightarrow> (send_pc \<times> driver) option" where
  "sched_step data_p bl size_p MAIN ps = send_buffer_step data_p bl size_p ps"
| "sched_step data_p bl size_p (INTR e) (pc, s) = map_option (Pair pc) (irq_step e s)"

fun sched_run ::
  "uint16_t list option \<Rightarrow> int list option \<Rightarrow> uint8_t \<Rightarrow> sched list \<Rightarrow> send_pc \<times> driver
     \<Rightarrow> (send_pc \<times> driver) option" where
  "sched_run data_p bl size_p [] ps = Some ps"
| "sched_run data_p bl size_p (x # xs) ps =
     (case sched_step data_p bl size_p x ps of
        None \<Rightarrow> None
      | Some ps' \<Rightarrow> sched_run data_p bl size_p xs ps')"

section \<open>Well-formed driver states\<close>

text \<open>
  The arrays have their declared length, the digit index is in range, the buffer index
  is 0 or 1, and once the callback has left \<open>STATE_PREPARE\<close> its two pointers
  designate the active buffer.
\<close>

definition driver_wf :: "driver \<Rightarrow> bool" where
  "driver_wf s \<longleftrightarrow>
     length (data (buf0 (buffers s))) = NUMBER_OF_SEGMENTS \<and>
     length (skip_buff (buf0 (buffers s))) = NUMBER_OF_SEGMENTS \<and>
     length (data (buf1 (buffers s))) = NUMBER_OF_SEGMENTS \<and>
     length (skip_buff (buf1 (buffers s))) = NUMBER_OF_SEGMENTS \<and>
     length (skip_counter (buffers s)) = NUMBER_OF_SEGMENTS \<and>
     unat (current_segment_index s) < NUMBER_OF_SEGMENTS \<and>
     (current_active_buf_index s = 0 \<or> current_active_buf_index s = 1) \<and>
     (state s \<noteq> STATE_PREPARE \<longrightarrow>
        data_buf s = Some (active_buf s) \<and> skip_buf s = Some (active_buf s))"


section \<open>Concrete inputs used below\<close>

text \<open>The driver after \<open>driver_7_seg_init\<close> succeeded on the reset state.\<close>

definition driver_ready :: driver where
  "driver_ready = snd (driver_7_seg_init (Some 1) (Some 2) (Some 3) 4 HAL_OK driver_reset)"

definition config_C105 :: char_gen_data_t where
  "config_C105 =
     \<lparr>digits = ''C105'',
      periods = [PERIOD_OFF, PERIOD_OFF, PERIOD_ON, PERIOD_OFF],
      brightness = Some [LEVEL_5_MAX, LEVEL_5_MAX, LEVEL_5_MAX, LEVEL_5_MAX]\<rparr>"

definition config_unsupported :: char_gen_data_t where
  "config_unsupported =
     \<lparr>digits = ''A1?z'',
      periods = [PERIOD_ON, PERIOD_OFF, PERIOD_OFF, PERIOD_OFF],
      brightness = Some [LEVEL_5_MAX, LEVEL_4, LEVEL_3, LEVEL_2]\<rparr>"

text \<open>
  A state in \<open>STATE_START_SENDING\<close> on digit 0 of \<open>buf0\<close>, whose thresholds are all
  \<open>NOT_USED\<close> after initialisation, with the skip counter of that digit at 255.
\<close>

definition driver_sending_255 :: driver where
  "driver_sending_255 =
     driver_ready\<lparr>state := STATE_START_SENDING, data_buf := Some BUF0, skip_buf := Some BUF0,
                  buffers := (buffers driver_ready)\<lparr>skip_counter := [255, 0, 0, 0]\<rparr>\<rparr>"

text \<open>A state in \<open>STATE_PREPARE\<close> with a frame pending.\<close>

definition driver_pending :: driver where
  "driver_pending = driver_ready\<lparr>new_buffer_ready := 1\<rparr>"

definition config_five_digits :: char_gen_data_t where
  "config_five_digits =
     \<lparr>digits = ''12345'',
      periods = [PERIOD_OFF, PERIOD_OFF, PERIOD_OFF, PERIOD_OFF],
      brightness = Some [LEVEL_5_MAX, LEVEL_5_MAX, LEVEL_5_MAX, LEVEL_5_MAX]\<rparr>"

definition config_null_brightness :: char_gen_data_t where
  "config_null_brightness =
     \<lparr>digits = ''1234'',
      periods = [PERIOD_OFF, PERIOD_OFF, PERIOD_OFF, PERIOD_OFF],
      brightness = None\<rparr>"

text \<open>
  The invariant of the time between initialisation and the first frame: \<open>buf0\<close> is
  active and holds only \<open>NOT_USED\<close> thresholds, nothing is pending, and every SPI call
  made so far sent the blank word.
\<close>

definition blank_inv :: "driver \<Rightarrow> bool" where
  "blank_inv s \<longleftrightarrow>
     driver_wf s \<and> current_active_buf_index s = 0 \<and> new_buffer_ready s = 0
     \<and> skip_buff (buf0 (buffers s)) = replicate NUMBER_OF_SEGMENTS (word_of_int NOT_USED)
     \<and> (\<forall>c \<in> set (spi_calls s). tx_source c = SRC_VOID \<and> tx_word c = 0)"

definition irqs_one_digit :: "irq list" where
  "irqs_one_digit =
     [IRQ_TIM TIM6, IRQ_TIM TIM6, IRQ_SPI_TX_CPLT (Some 1), IRQ_TIM TIM6, IRQ_TIM TIM6, IRQ_TIM TIM6]"

text \<open>
  A run in which a second frame is submitted while the scan is between digit 0 and
  digit 1: initialisation, the frame "1111", the refresh of digit 0 (which makes that
  frame active and sends its first word), the frame "2222", and the tick that moves on
  to digit 1.
\<close>

definition config_1111 :: char_gen_data_t where
  "config_1111 =
     \<lparr>digits = ''1111'',
      periods = [PERIOD_OFF, PERIOD_OFF, PERIOD_OFF, PERIOD_OFF],
      brightness = Some [LEVEL_5_MAX, LEVEL_5_MAX, LEVEL_5_MAX, LEVEL_5_MAX]\<rparr>"

definition config_2222 :: char_gen_data_t where
  "config_2222 =
     \<lparr>digits = ''2222'',
      periods = [PERIOD_OFF, PERIOD_OFF, PERIOD_OFF, PERIOD_OFF],
      brightness = Some [LEVEL_5_MAX, LEVEL_5_MAX, LEVEL_5_MAX, LEVEL_5_MAX]\<rparr>"

definition torn_scan_prefix :: "event list" where
  "torn_scan_prefix =
     [EV_INIT (Some 1) (Some 2) (Some 3) 4 HAL_OK,
      EV_TRANSMIT (Some config_1111),
      EV_IRQ (IRQ_TIM TIM6), EV_IRQ (IRQ_TIM TIM6), EV_IRQ (IRQ_SPI_TX_CPLT (Some 1)),
      EV_IRQ (IRQ_TIM TIM6), EV_IRQ (IRQ_TIM TIM6),
      EV_TRANSMIT (Some config_2222),
      EV_IRQ (IRQ_TIM TIM6)]"

text \<open>The refresh of one digit, from \<open>STATE_PREPARE\<close> back to \<open>STATE_PREPARE\<close>.\<close>

definition digit_refresh :: "event list" where
  "digit_refresh =
     [EV_IRQ (IRQ_TIM TIM6), EV_IRQ (IRQ_TIM TIM6), EV_IRQ (IRQ_SPI_TX_CPLT (Some 1)),
      EV_IRQ (IRQ_TIM TIM6), EV_IRQ (IRQ_TIM TIM6), EV_IRQ (IRQ_TIM TIM6)]"

text \<open>A state in \<open>STATE_PREPARE\<close> on digit 1 with a frame pending.\<close>

definition driver_pending_digit1 :: driver where
  "driver_pending_digit1 = driver_ready\<lparr>new_buffer_ready := 1, current_segment_index := 1\<rparr>"

text \<open>
  What holds at each position of \<open>driver_7_seg_send_buffer\<close>, for a call that was
  entered in state \<open>s0\<close> with the frame \<open>d\<close>, \<open>br\<close>, however interrupts fall between
  its statements:
  \<^item> up to the end of the busy-wait no buffer has been written;
  \<^item> from there to the setting of the flag, the flag is 0, the buffer being written is
    the one that is not active, the active buffer holds what it held at entry, and the
    first \<open>i\<close> slots of the frame have been copied;
  \<^item> just before the flag is set the inactive buffer holds the whole frame;
  \<^item> after the return the frame is whole either in the inactive buffer with the flag
    at 1, or, once the scheduler has swapped, in the active buffer with the flag at 0.
\<close>

definition send_inv :: "uint16_t list \<Rightarrow> int list \<Rightarrow> driver \<Rightarrow> send_pc \<Rightarrow> driver \<Rightarrow> bool" where
  "send_inv d br s0 pc s \<longleftrightarrow>
     (case pc of
        PC_CHECK \<Rightarrow> get_buf BUF0 s = get_buf BUF0 s0 \<and> get_buf BUF1 s = get_buf BUF1 s0
      | PC_WAIT \<Rightarrow> get_buf BUF0 s = get_buf BUF0 s0 \<and> get_buf BUF1 s = get_buf BUF1 s0
      | PC_SELECT \<Rightarrow>
          new_buffer_ready s = 0
          \<and> get_buf BUF0 s = get_buf BUF0 s0 \<and> get_buf BUF1 s = get_buf BUF1 s0
      | PC_STORE_DATA b i \<Rightarrow>
          new_buffer_ready s = 0 \<and> b = other_buf (active_buf s) \<and> i \<le> NUMBER_OF_SEGMENTS
          \<and> get_buf (active_buf s) s = get_buf (active_buf s) s0
          \<and> take i (data (get_buf b s)) = take i d
          \<and> take i (skip_buff (get_buf b s)) = map word_of_int (take i br)
      | PC_STORE_SKIP b i \<Rightarrow>
          new_buffer_ready s = 0 \<and> b = other_buf (active_buf s) \<and> i < NUMBER_OF_SEGMENTS
          \<and> get_buf (active_buf s) s = get_buf (active_buf s) s0
          \<and> take (Suc i) (data (get_buf b s)) = take (Suc i) d
          \<and> take i (skip_buff (get_buf b s)) = map word_of_int (take i br)
      | PC_SET_READY \<Rightarrow>
          new_buffer_ready s = 0
          \<and> get_buf (active_buf s) s = get_buf (active_buf s) s0
          \<and> get_buf (other_buf (active_buf s)) s = \<lparr>data = d, skip_buff = map word_of_int br\<rparr>
      | PC_RETURN st \<Rightarrow>
          st = DRIVER_7_SEG_STATUS_OK
          \<and> (new_buffer_ready s = 1
               \<and> get_buf (other_buf (active_buf s)) s = \<lparr>data = d, skip_buff = map word_of_int br\<rparr>
               \<and> get_buf (active_buf s) s = get_buf (active_buf s) s0
              \<or> new_buffer_ready s = 0
               \<and> get_buf (active_buf s) s = \<lparr>data = d, skip_buff = map word_of_int br\<rparr>
               \<and> get_buf (other_buf (active_buf s)) s = get_buf (other_buf (active_buf s)) s0))"

text \<open>
  A schedule for a call made while a frame is pending: the call spins, the tick in
  \<open>STATE_PREPARE\<close> clears the flag, the call runs to its return.
\<close>

definition sched_spin_then_copy :: "sched list" where
  "sched_spin_then_copy = [MAIN, MAIN, MAIN, INTR (IRQ_TIM TIM6)] @ replicate 12 MAIN"









section \<open>Properties\<close>

subsection \<open>Auxiliary facts\<close>

lemma upt_segments: "[0..<NUMBER_OF_SEGMENTS] = [0, 1, 2, 3]"
  by (simp add: NUMBER_OF_SEGMENTS_def upt_rec)

lemma upt_digits: "[0..<DIGIT_NUM] = [0, 1, 2, 3]"
  by (simp add: DIGIT_NUM_def upt_rec)

lemma get_buf_updates [simp]:
  "get_buf b (s\<lparr>config := c\<rparr>) = get_buf b s"
  "get_buf b (s\<lparr>spi_tranfer_complete := x\<rparr>) = get_buf b s"
  "get_buf b (s\<lparr>new_buffer_ready := x\<rparr>) = get_buf b s"
  "get_buf b (s\<lparr>current_active_buf_index := x\<rparr>) = get_buf b s"
  "get_buf b (s\<lparr>state := st\<rparr>) = get_buf b s"
  "get_buf b (s\<lparr>data_buf := p\<rparr>) = get_buf b s"
  "get_buf b (s\<lparr>skip_buf := p\<rparr>) = get_buf b s"
  "get_buf b (s\<lparr>current_segment_index := x\<rparr>) = get_buf b s"
  "get_buf b (s\<lparr>gpio_calls := g\<rparr>) = get_buf b s"
  "get_buf b (s\<lparr>spi_calls := t\<rparr>) = get_buf b s"
  "get_buf b (s\<lparr>tim_start_calls := u\<rparr>) = get_buf b s"
  "get_buf b (s\<lparr>buffers := (buffers s)\<lparr>skip_counter := k\<rparr>\<rparr>) = get_buf b s"
  by (simp_all add: get_buf_def split: buf_ref.splits)

lemma active_buf_updates [simp]:
  "active_buf (s\<lparr>config := c\<rparr>) = active_buf s"
  "active_buf (s\<lparr>buffers := bs\<rparr>) = active_buf s"
  "active_buf (s\<lparr>spi_tranfer_complete := x\<rparr>) = active_buf s"
  "active_buf (s\<lparr>new_buffer_ready := x\<rparr>) = active_buf s"
  "active_buf (s\<lparr>state := st\<rparr>) = active_buf s"
  "active_buf (s\<lparr>data_buf := p\<rparr>) = active_buf s"
  "active_buf (s\<lparr>skip_buf := p\<rparr>) = active_buf s"
  "active_buf (s\<lparr>current_segment_index := x\<rparr>) = active_buf s"
  "active_buf (s\<lparr>gpio_calls := g\<rparr>) = active_buf s"
  "active_buf (s\<lparr>spi_calls := t\<rparr>) = active_buf s"
  "active_buf (s\<lparr>tim_start_calls := u\<rparr>) = active_buf s"
  by (simp_all add: active_buf_def)

lemma find_code_absent: "c \<notin> fst ` set tbl \<Longrightarrow> find_code tbl c = INVALID_CHAR"
  by (induction tbl) auto

lemma wait_new_buffer_ready_clear:
  "new_buffer_ready s = 0 \<Longrightarrow> wait_new_buffer_ready s = Some s"
  by (subst wait_new_buffer_ready.simps) simp

lemma wait_new_buffer_ready_returns:
  assumes "wait_new_buffer_ready s = Some y"
  shows "new_buffer_ready s = 0 \<and> y = s"
  by (rule wait_new_buffer_ready.raw_induct [OF _ assms]) (auto split: if_splits)

lemma wait_new_buffer_ready_spins:
  "new_buffer_ready s \<noteq> 0 \<Longrightarrow> wait_new_buffer_ready s = None"
  using wait_new_buffer_ready_returns [of s] by (cases "wait_new_buffer_ready s") auto

lemma encode_frame_Some:
  assumes "4 \<le> length (digits cfg)" "4 \<le> length (periods cfg)"
  shows "encode_frame cfg =
           Some (map (\<lambda>i. out_word (segment_data (digits cfg ! i) (periods cfg ! i)) i) [0, 1, 2, 3])"
  using assms by (auto simp add: encode_frame_def upt_digits encode_digit_def)

lemma copy_loop_total:
  "\<forall>i \<in> set idxs. i < length d \<and> i < length br \<Longrightarrow> \<exists>s'. copy_loop b d br idxs s = Some s'"
  by (induction idxs arbitrary: s) auto

lemma copy_loop_Some:
  assumes "4 \<le> length d" "4 \<le> length br"
  shows "\<exists>s'. copy_loop b d br [0..<NUMBER_OF_SEGMENTS] s = Some s'"
  by (rule copy_loop_total) (use assms in \<open>auto simp: NUMBER_OF_SEGMENTS_def\<close>)

subsection \<open>The character generator\<close>

text \<open>
  C5. \<open>char_gen_transmit\<close> on the digits C, 1, 0, 5 with the decimal point on for the
  third digit only and maximum brightness everywhere encodes the four transfer words
  0xC601, 0xF902, 0x4004, 0x9208, in digit order: their low bytes are the one-hot masks
  1, 2, 4, 8, and the decimal-point bit (bit 7 of the high byte, bit 15 of the word) is
  clear in the third word and set in the other three. On the freshly initialised driver
  the call returns OK and has stored exactly these words, with thresholds 0, in the
  inactive buffer.
\<close>

theorem C5_transmit_C105:
  "encode_frame config_C105 = Some [0xC601, 0xF902, 0x4004, 0x9208]
   \<and> map (\<lambda>w. w AND 0xFF) [0xC601, 0xF902, 0x4004, 0x9208 :: uint16_t] = [1, 2, 4, 8]
   \<and> map (\<lambda>w. bit w 15) [0xC601, 0xF902, 0x4004, 0x9208 :: uint16_t] = [True, True, False, True]
   \<and> map_option
        (\<lambda>(st, s'). (st, data (buf1 (buffers s')), skip_buff (buf1 (buffers s')), new_buffer_ready s'))
        (char_gen_transmit (Some config_C105) driver_ready)
       = Some (CHAR_GEN_STATUS_OK, [0xC601, 0xF902, 0x4004, 0x9208], [0, 0, 0, 0], 1)"
proof -
  have enc: "encode_frame config_C105 = Some [0xC601, 0xF902, 0x4004, 0x9208]"
    by code_simp
  have masks: "map (\<lambda>w. w AND 0xFF) [0xC601, 0xF902, 0x4004, 0x9208 :: uint16_t] = [1, 2, 4, 8]"
    by simp
  have dp: "map (\<lambda>w. bit w 15) [0xC601, 0xF902, 0x4004, 0x9208 :: uint16_t] = [True, True, False, True]"
    by simp
  have tx: "map_option
        (\<lambda>(st, s'). (st, data (buf1 (buffers s')), skip_buff (buf1 (buffers s')), new_buffer_ready s'))
        (char_gen_transmit (Some config_C105) driver_ready)
       = Some (CHAR_GEN_STATUS_OK, [0xC601, 0xF902, 0x4004, 0x9208], [0, 0, 0, 0], 1)"
    by code_simp
  from enc masks dp tx show ?thesis by (intro conjI)
qed

text \<open>
  C7. \<open>char_gen_transmit\<close> validates nothing and never returns
  \<open>CHAR_GEN_STATUS_INVALID_PARAMETERS\<close>. Given five digits it encodes the first four and
  returns OK; given a \<open>NULL\<close> brightness pointer it returns NOT_TRANSMITTED (the driver's
  INVALID_PARAMETERS is folded into it); given a \<open>NULL\<close> configuration the assertion
  aborts and no status is returned.
\<close>

theorem C7_transmit_does_not_validate:
  "map_option fst (char_gen_transmit (Some config_five_digits) driver_ready)
     = Some CHAR_GEN_STATUS_OK
   \<and> map_option fst (char_gen_transmit (Some config_null_brightness) driver_ready)
     = Some CHAR_GEN_STATUS_NOT_TRANSMITTED
   \<and> char_gen_transmit None driver_ready = None"
proof -
  have a: "map_option fst (char_gen_transmit (Some config_five_digits) driver_ready)
     = Some CHAR_GEN_STATUS_OK"
    by code_simp
  have b: "map_option fst (char_gen_transmit (Some config_null_brightness) driver_ready)
     = Some CHAR_GEN_STATUS_NOT_TRANSMITTED"
    by code_simp
  have c: "char_gen_transmit None driver_ready = None"
    by (simp add: char_gen_transmit_def)
  from a b c show ?thesis by (intro conjI)
qed

lemma char_gen_transmit_statuses:
  "char_gen_transmit c s = Some (st, s')
     \<Longrightarrow> st = CHAR_GEN_STATUS_OK \<or> st = CHAR_GEN_STATUS_NOT_TRANSMITTED"
  by (auto simp: char_gen_transmit_def split: option.splits if_splits)

subsection \<open>Initialisation\<close>

text \<open>
  C8. \<open>driver_7_seg_init\<close> returns NOT_INITIALIZED when the SPI handle, the timer handle
  or the GPIO port is \<open>NULL\<close>, and when \<open>HAL_TIM_Base_Start_IT\<close> does not return
  \<open>HAL_OK\<close>. With a \<open>NULL\<close> SPI handle it returns before anything else happens: the
  whole driver state, the record of HAL calls included, is unchanged, so the timer has
  not been started and \<open>initialized\<close> is what it was.
\<close>

theorem C8_init_failure:
  "(hspi_p = None \<or> htim_p = None \<or> GPIOx = None \<or> tim_result \<noteq> HAL_OK \<longrightarrow>
      fst (driver_7_seg_init hspi_p htim_p GPIOx pin tim_result s)
        = DRIVER_7_SEG_STATUS_NOT_INITIALIZED)
   \<and> (hspi_p = None \<longrightarrow>
      driver_7_seg_init hspi_p htim_p GPIOx pin tim_result s
        = (DRIVER_7_SEG_STATUS_NOT_INITIALIZED, s))"
  by (simp add: driver_7_seg_init_def Let_def)

theorem C8_init_failure_witness:
  "fst (driver_7_seg_init None (Some 2) (Some 3) 4 HAL_OK driver_reset)
     = DRIVER_7_SEG_STATUS_NOT_INITIALIZED
   \<and> fst (driver_7_seg_init (Some 1) (Some 2) (Some 3) 4 HAL_ERROR driver_reset)
     = DRIVER_7_SEG_STATUS_NOT_INITIALIZED
   \<and> driver_7_seg_init None (Some 2) (Some 3) 4 HAL_OK driver_reset
     = (DRIVER_7_SEG_STATUS_NOT_INITIALIZED, driver_reset)
   \<and> tim_start_calls (snd (driver_7_seg_init None (Some 2) (Some 3) 4 HAL_OK driver_reset)) = []
   \<and> map_option fst
        (driver_7_seg_send_buffer (Some [1, 2, 3, 4]) (Some [0, 0, 0, 0]) 4
           (snd (driver_7_seg_init None (Some 2) (Some 3) 4 HAL_OK driver_reset)))
       = Some DRIVER_7_SEG_STATUS_NOT_INITIALIZED"
  using C8_init_failure [of None "Some 2" "Some 3" HAL_OK 4 driver_reset]
    C8_init_failure [of "Some 1" "Some 2" "Some 3" HAL_ERROR 4 driver_reset]
  by (simp add: driver_reset_def driver_7_seg_send_buffer_def)

subsection \<open>One visit of the scheduler to a digit\<close>

text \<open>
  C4. In \<open>STATE_START_SENDING\<close>, when the threshold of the current digit is
  \<open>NOT_USED\<close> (255), the tick hands the blank word to the SPI and increments the skip
  counter, whatever the counter is (also at 255, where a bare comparison
  \<open>counter >= threshold\<close> would have let the real word through). The same state with the
  threshold replaced by \<open>LEVEL_5_MAX\<close> (0) sends the real word of the digit and resets
  the counter: the two encodings behave differently.
\<close>

theorem C4_not_used_is_always_blank:
  assumes "state s = STATE_START_SENDING"
    and "skip_buf s = Some sb" and "data_buf s = Some db"
    and "unat (current_segment_index s) = i"
    and "i < length (skip_buff (get_buf sb s))"
    and "i < length (skip_counter (buffers s))"
    and "i < length (data (get_buf db s))"
    and "uint (skip_buff (get_buf sb s) ! i) = NOT_USED"
  shows "(\<exists>s'. HAL_TIM_PeriodElapsedCallback TIM6 s = Some s'
            \<and> spi_calls s' = spi_calls s
                 @ [\<lparr>tx_segment = current_segment_index s, tx_source = SRC_VOID, tx_word = 0\<rparr>]
            \<and> skip_counter (buffers s')
                 = (skip_counter (buffers s))[i := skip_counter (buffers s) ! i + 1])
       \<and> (\<exists>s'. HAL_TIM_PeriodElapsedCallback TIM6 (store_skip sb i (word_of_int LEVEL_5_MAX) s) = Some s'
            \<and> spi_calls s' = spi_calls s
                 @ [\<lparr>tx_segment = current_segment_index s, tx_source = SRC_DATA db i,
                     tx_word = data (get_buf db s) ! i\<rparr>]
            \<and> skip_counter (buffers s') = (skip_counter (buffers s))[i := 0])"
proof -
  have blank: "\<exists>s'. HAL_TIM_PeriodElapsedCallback TIM6 s = Some s'
            \<and> spi_calls s' = spi_calls s
                 @ [\<lparr>tx_segment = current_segment_index s, tx_source = SRC_VOID, tx_word = 0\<rparr>]
            \<and> skip_counter (buffers s')
                 = (skip_counter (buffers s))[i := skip_counter (buffers s) ! i + 1]"
    using assms
    by (auto simp add: HAL_TIM_PeriodElapsedCallback_def case_STATE_START_SENDING_def Let_def
        HAL_SPI_Transmit_IT_def)
  have real: "\<exists>s'. HAL_TIM_PeriodElapsedCallback TIM6 (store_skip sb i (word_of_int LEVEL_5_MAX) s) = Some s'
            \<and> spi_calls s' = spi_calls s
                 @ [\<lparr>tx_segment = current_segment_index s, tx_source = SRC_DATA db i,
                     tx_word = data (get_buf db s) ! i\<rparr>]
            \<and> skip_counter (buffers s') = (skip_counter (buffers s))[i := 0]"
    using assms(1-7)
    by (cases sb; cases db)
      (auto simp add: HAL_TIM_PeriodElapsedCallback_def case_STATE_START_SENDING_def Let_def
        HAL_SPI_Transmit_IT_def store_skip_def set_buf_def get_buf_def LEVEL_5_MAX_def
        NOT_USED_def)
  from blank real show ?thesis ..
qed

theorem C4_not_used_is_always_blank_witness:
  "(\<exists>s'. HAL_TIM_PeriodElapsedCallback TIM6 driver_sending_255 = Some s'
        \<and> spi_calls s' = [\<lparr>tx_segment = 0, tx_source = SRC_VOID, tx_word = 0\<rparr>]
        \<and> skip_counter (buffers s') = [0, 0, 0, 0])
   \<and> (\<exists>s'. HAL_TIM_PeriodElapsedCallback TIM6
               (store_skip BUF0 0 (word_of_int LEVEL_5_MAX) driver_sending_255) = Some s'
        \<and> spi_calls s' = [\<lparr>tx_segment = 0, tx_source = SRC_DATA BUF0 0, tx_word = 0\<rparr>]
        \<and> skip_counter (buffers s') = [0, 0, 0, 0])"
proof -
  have f: "state driver_sending_255 = STATE_START_SENDING"
    "skip_buf driver_sending_255 = Some BUF0" "data_buf driver_sending_255 = Some BUF0"
    "unat (current_segment_index driver_sending_255) = 0"
    "skip_buff (get_buf BUF0 driver_sending_255) = [255, 255, 255, 255]"
    "data (get_buf BUF0 driver_sending_255) = [0, 0, 0, 0]"
    "skip_counter (buffers driver_sending_255) = [255, 0, 0, 0]"
    "spi_calls driver_sending_255 = []"
    "current_segment_index driver_sending_255 = 0"
    by code_simp+
  have wrap: "(256 :: uint8_t) = 0"
    by simp
  show ?thesis
    using C4_not_used_is_always_blank [of driver_sending_255 BUF0 BUF0 0]
    by (simp add: f NOT_USED_def wrap)
qed

subsection \<open>Who writes the skip counters\<close>

lemma store_data_skip_counter [simp]:
  "skip_counter (buffers (store_data b i w s)) = skip_counter (buffers s)"
  by (simp add: store_data_def set_buf_def split: buf_ref.splits)

lemma store_skip_skip_counter [simp]:
  "skip_counter (buffers (store_skip b i w s)) = skip_counter (buffers s)"
  by (simp add: store_skip_def set_buf_def split: buf_ref.splits)

lemma copy_loop_skip_counter:
  "copy_loop b d br idxs s = Some s' \<Longrightarrow> skip_counter (buffers s') = skip_counter (buffers s)"
  by (induction idxs arbitrary: s) (auto split: if_splits)

lemma send_buffer_skip_counter:
  "driver_7_seg_send_buffer d b n s = Some (st, s')
     \<Longrightarrow> skip_counter (buffers s') = skip_counter (buffers s)"
  unfolding driver_7_seg_send_buffer_def
  by (auto split: if_splits option.splits
      dest!: wait_new_buffer_ready_returns copy_loop_skip_counter)

lemma send_buffer_step_skip_counter:
  "send_buffer_step d b n (pc, s) = Some (pc', s')
     \<Longrightarrow> skip_counter (buffers s') = skip_counter (buffers s)"
  by (cases pc) (auto split: if_splits option.splits)

lemma transmit_skip_counter:
  "char_gen_transmit c s = Some (st, s') \<Longrightarrow> skip_counter (buffers s') = skip_counter (buffers s)"
  by (auto simp: char_gen_transmit_def split: option.splits if_splits
      dest: send_buffer_skip_counter)

lemma init_skip_counter:
  "skip_counter (buffers (snd (driver_7_seg_init h t g p r s))) = skip_counter (buffers s)"
  by (simp add: driver_7_seg_init_def Let_def HAL_GPIO_WritePin_def HAL_TIM_Base_Start_IT_def
      set_buf_def get_buf_def)

lemma tick_skip_counter:
  "HAL_TIM_PeriodElapsedCallback inst s = Some s'
     \<Longrightarrow> inst \<noteq> TIM6 \<or> state s \<noteq> STATE_START_SENDING
     \<Longrightarrow> skip_counter (buffers s') = skip_counter (buffers s)"
  by (cases "state s")
    (auto simp: HAL_TIM_PeriodElapsedCallback_def case_STATE_PREPARE_def
      case_STATE_WAIT_SPI_def case_STATE_POST_def case_STATE_WAIT_def Let_def
      HAL_GPIO_WritePin_def split: if_splits)

lemma send_buffer_returns_OK:
  assumes "initialized (config s) = Some DRIVER_7_SEG_STATUS_OK"
    and "new_buffer_ready s = 0" and "4 \<le> length d" and "4 \<le> length br"
  shows "\<exists>s'. driver_7_seg_send_buffer (Some d) (Some br) 4 s = Some (DRIVER_7_SEG_STATUS_OK, s')"
proof -
  obtain s2 where "copy_loop (if current_active_buf_index s = 0 then BUF1 else BUF0) d br
      [0..<NUMBER_OF_SEGMENTS] s = Some s2"
    using copy_loop_Some [OF assms(3,4)] by blast
  then show ?thesis
    unfolding driver_7_seg_send_buffer_def
    using assms(1,2)
    by (simp add: wait_new_buffer_ready_clear NUMBER_OF_SEGMENTS_def del: copy_loop.simps)
qed

lemma driver_ready_facts:
  "initialized (config driver_ready) = Some DRIVER_7_SEG_STATUS_OK"
  "new_buffer_ready driver_ready = 0"
  "current_active_buf_index driver_ready = 0"
  "state driver_ready = STATE_PREPARE"
  "skip_counter (buffers driver_ready) = [0, 0, 0, 0]"
  "skip_buff (buf0 (buffers driver_ready)) = [255, 255, 255, 255]"
  "spi_calls driver_ready = []"
  by code_simp+

text \<open>
  C10. There is one array of skip counters, beside the two buffers. No event other than
  a timer tick taken in \<open>STATE_START_SENDING\<close> changes it: not a call of
  \<open>driver_7_seg_send_buffer\<close> (as a whole, or any single statement of it), of
  \<open>char_gen_transmit\<close> or of \<open>driver_7_seg_init\<close>, not the SPI callback, not a tick in
  another state. In particular the tick in \<open>STATE_PREPARE\<close> that swaps the buffers
  leaves every counter as it was, so the counters carry over to the new frame.
\<close>

theorem C10_skip_counters_owned_by_tick:
  assumes "event_step ev s = Some s'"
    and "send_buffer_step d b n (pc, t) = Some (pc', t')"
    and "state u = STATE_PREPARE" and "new_buffer_ready u = 1"
  shows "(skip_counter (buffers s') = skip_counter (buffers s)
            \<or> (ev = EV_IRQ (IRQ_TIM TIM6) \<and> state s = STATE_START_SENDING))
       \<and> skip_counter (buffers t') = skip_counter (buffers t)
       \<and> (\<exists>u'. HAL_TIM_PeriodElapsedCallback TIM6 u = Some u'
              \<and> current_active_buf_index u' = current_active_buf_index u XOR 1
              \<and> new_buffer_ready u' = 0
              \<and> skip_counter (buffers u') = skip_counter (buffers u))"
proof -
  have ev: "skip_counter (buffers s') = skip_counter (buffers s)
            \<or> (ev = EV_IRQ (IRQ_TIM TIM6) \<and> state s = STATE_START_SENDING)"
  proof (cases ev)
    case (EV_IRQ e)
    show ?thesis
    proof (cases e)
      case (IRQ_TIM inst)
      with EV_IRQ assms(1) show ?thesis
        using tick_skip_counter [of inst s s'] by auto
    next
      case (IRQ_SPI_TX_CPLT h)
      with EV_IRQ assms(1) show ?thesis
        by (auto simp: HAL_SPI_TxCpltCallback_def)
    qed
  next
    case (EV_INIT h tm g p r)
    with assms(1) show ?thesis
      using init_skip_counter [of h tm g p r s] by auto
  next
    case (EV_SEND_BUFFER dd bb nn)
    with assms(1) show ?thesis
      by (auto dest: send_buffer_skip_counter)
  next
    case (EV_TRANSMIT c)
    with assms(1) show ?thesis
      by (auto dest: transmit_skip_counter)
  qed
  have st: "skip_counter (buffers t') = skip_counter (buffers t)"
    using assms(2) by (rule send_buffer_step_skip_counter)
  have sw: "\<exists>u'. HAL_TIM_PeriodElapsedCallback TIM6 u = Some u'
              \<and> current_active_buf_index u' = current_active_buf_index u XOR 1
              \<and> new_buffer_ready u' = 0
              \<and> skip_counter (buffers u') = skip_counter (buffers u)"
    using assms(3,4)
    by (simp add: HAL_TIM_PeriodElapsedCallback_def case_STATE_PREPARE_def Let_def
        HAL_GPIO_WritePin_def)
  from ev st sw show ?thesis by (intro conjI)
qed

theorem C10_skip_counters_owned_by_tick_witness:
  "(\<exists>s'. event_step (EV_SEND_BUFFER (Some [1, 2, 3, 4]) (Some [0, 0, 0, 0]) 4) driver_ready = Some s'
        \<and> skip_counter (buffers s') = [0, 0, 0, 0])
   \<and> send_buffer_step (Some [1, 2, 3, 4]) (Some [0, 0, 0, 0]) 4 (PC_SET_READY, driver_ready)
        = Some (PC_RETURN DRIVER_7_SEG_STATUS_OK, driver_pending)
   \<and> skip_counter (buffers driver_pending) = [0, 0, 0, 0]
   \<and> (\<exists>u'. HAL_TIM_PeriodElapsedCallback TIM6 driver_pending = Some u'
          \<and> current_active_buf_index u' = 1
          \<and> new_buffer_ready u' = 0
          \<and> skip_counter (buffers u') = [0, 0, 0, 0])"
proof -
  obtain s1 where s1: "driver_7_seg_send_buffer (Some [1, 2, 3, 4]) (Some [0, 0, 0, 0]) 4 driver_ready
      = Some (DRIVER_7_SEG_STATUS_OK, s1)"
    using send_buffer_returns_OK [of driver_ready "[1, 2, 3, 4]" "[0, 0, 0, 0]"]
    by (auto simp: driver_ready_facts)
  then have e: "event_step (EV_SEND_BUFFER (Some [1, 2, 3, 4]) (Some [0, 0, 0, 0]) 4) driver_ready
      = Some s1"
    by simp
  have m: "send_buffer_step (Some [1, 2, 3, 4]) (Some [0, 0, 0, 0]) 4 (PC_SET_READY, driver_ready)
        = Some (PC_RETURN DRIVER_7_SEG_STATUS_OK, driver_pending)"
    by (simp add: driver_pending_def)
  have p: "state driver_pending = STATE_PREPARE" "new_buffer_ready driver_pending = 1"
    "skip_counter (buffers driver_pending) = [0, 0, 0, 0]"
    "current_active_buf_index driver_pending = 0"
    by (simp_all add: driver_pending_def driver_ready_facts)
  show ?thesis
    using C10_skip_counters_owned_by_tick [OF e m p(1,2)] e m
    by (auto simp: p driver_ready_facts)
qed

subsection \<open>The timer callback on well-formed states\<close>

lemmas tick_defs = HAL_TIM_PeriodElapsedCallback_def case_STATE_PREPARE_def
  case_STATE_START_SENDING_def case_STATE_WAIT_SPI_def case_STATE_POST_def case_STATE_WAIT_def
  Let_def HAL_GPIO_WritePin_def HAL_SPI_Transmit_IT_def

lemma segments_pos [simp]: "0 < NUMBER_OF_SEGMENTS"
  by (simp add: NUMBER_OF_SEGMENTS_def)

lemma next_index_lt:
  "unat (word_of_nat ((unat (x :: uint8_t) + 1) mod NUMBER_OF_SEGMENTS) :: uint8_t)
     < NUMBER_OF_SEGMENTS"
proof -
  have "(unat x + 1) mod 4 < 4" by simp
  moreover have "unat (word_of_nat ((unat x + 1) mod 4) :: uint8_t) = (unat x + 1) mod 4"
    by (simp add: unat_of_nat)
  ultimately show ?thesis by (simp add: NUMBER_OF_SEGMENTS_def)
qed

lemma wf_lengths:
  assumes "driver_wf s"
  shows "length (data (get_buf b s)) = NUMBER_OF_SEGMENTS"
    "length (skip_buff (get_buf b s)) = NUMBER_OF_SEGMENTS"
    "length (skip_counter (buffers s)) = NUMBER_OF_SEGMENTS"
    "unat (current_segment_index s) < NUMBER_OF_SEGMENTS"
  using assms by (cases b; simp add: driver_wf_def get_buf_def)+

lemma tick_wf:
  assumes "driver_wf s"
  shows "\<exists>s'. HAL_TIM_PeriodElapsedCallback inst s = Some s' \<and> driver_wf s'"
proof (cases "inst = TIM6")
  case False
  with assms show ?thesis by (simp add: HAL_TIM_PeriodElapsedCallback_def)
next
  case True
  show ?thesis
  proof (cases "state s")
    case STATE_PREPARE
    with True assms show ?thesis
      by (auto simp add: HAL_TIM_PeriodElapsedCallback_def case_STATE_PREPARE_def Let_def
          HAL_GPIO_WritePin_def driver_wf_def active_buf_def)
  next
    case STATE_START_SENDING
    with True assms wf_lengths [OF assms] show ?thesis
      by (auto simp add: HAL_TIM_PeriodElapsedCallback_def case_STATE_START_SENDING_def Let_def
          HAL_SPI_Transmit_IT_def driver_wf_def)
  next
    case STATE_WAIT_SPI
    with True assms show ?thesis
      by (auto simp add: HAL_TIM_PeriodElapsedCallback_def case_STATE_WAIT_SPI_def driver_wf_def)
  next
    case STATE_POST
    with True assms show ?thesis
      by (auto simp add: HAL_TIM_PeriodElapsedCallback_def case_STATE_POST_def Let_def
          HAL_GPIO_WritePin_def driver_wf_def)
  next
    case STATE_WAIT
    with True assms next_index_lt [of "current_segment_index s"] show ?thesis
      by (auto simp add: HAL_TIM_PeriodElapsedCallback_def case_STATE_WAIT_def driver_wf_def)
  qed
qed

lemma tick_buffers:
  "HAL_TIM_PeriodElapsedCallback inst s = Some s'
     \<Longrightarrow> get_buf b s' = get_buf b s \<and> config s' = config s"
  by (cases "state s")
    (auto simp: tick_defs get_buf_def split: if_splits option.splits buf_ref.splits)

lemma tick_flag:
  "HAL_TIM_PeriodElapsedCallback inst s = Some s' \<Longrightarrow>
    (if inst = TIM6 \<and> state s = STATE_PREPARE \<and> new_buffer_ready s = 1
     then current_active_buf_index s' = current_active_buf_index s XOR 1 \<and> new_buffer_ready s' = 0
     else current_active_buf_index s' = current_active_buf_index s
          \<and> new_buffer_ready s' = new_buffer_ready s)"
  by (cases "state s") (auto simp: tick_defs split: if_splits option.splits)

lemma tick_spi_calls_other:
  "HAL_TIM_PeriodElapsedCallback inst s = Some s'
     \<Longrightarrow> inst \<noteq> TIM6 \<or> state s \<noteq> STATE_START_SENDING
     \<Longrightarrow> spi_calls s' = spi_calls s"
  by (cases "state s") (auto simp: tick_defs split: if_splits option.splits)

lemma start_sending_effect:
  assumes "driver_wf s" "state s = STATE_START_SENDING"
  shows "\<exists>s'. HAL_TIM_PeriodElapsedCallback TIM6 s = Some s' \<and>
    (if uint (skip_buff (get_buf (active_buf s) s) ! unat (current_segment_index s)) \<noteq> NOT_USED
        \<and> skip_buff (get_buf (active_buf s) s) ! unat (current_segment_index s)
            \<le> skip_counter (buffers s) ! unat (current_segment_index s)
     then spi_calls s' = spi_calls s
            @ [\<lparr>tx_segment = current_segment_index s,
                tx_source = SRC_DATA (active_buf s) (unat (current_segment_index s)),
                tx_word = data (get_buf (active_buf s) s) ! unat (current_segment_index s)\<rparr>]
          \<and> skip_counter (buffers s')
              = (skip_counter (buffers s))[unat (current_segment_index s) := 0]
     else spi_calls s' = spi_calls s
            @ [\<lparr>tx_segment = current_segment_index s, tx_source = SRC_VOID, tx_word = 0\<rparr>]
          \<and> skip_counter (buffers s')
              = (skip_counter (buffers s))
                  [unat (current_segment_index s) :=
                     skip_counter (buffers s) ! unat (current_segment_index s) + 1])"
proof -
  have p: "skip_buf s = Some (active_buf s)" "data_buf s = Some (active_buf s)"
    using assms by (simp_all add: driver_wf_def)
  show ?thesis
    using assms(2) p wf_lengths [OF assms(1)]
    by (simp add: HAL_TIM_PeriodElapsedCallback_def case_STATE_START_SENDING_def Let_def
        HAL_SPI_Transmit_IT_def)
qed

subsection \<open>Before the first frame\<close>

lemma blank_inv_step:
  assumes "blank_inv s"
  shows "\<exists>s'. irq_step e s = Some s' \<and> blank_inv s'"
proof (cases e)
  case (IRQ_SPI_TX_CPLT h)
  with assms show ?thesis
    by (auto simp: blank_inv_def HAL_SPI_TxCpltCallback_def driver_wf_def)
next
  case (IRQ_TIM inst)
  from assms have w: "driver_wf s" by (simp add: blank_inv_def)
  obtain s' where s': "HAL_TIM_PeriodElapsedCallback inst s = Some s'" "driver_wf s'"
    using tick_wf [OF w] by blast
  have fl: "current_active_buf_index s' = 0" "new_buffer_ready s' = 0"
    using tick_flag [OF s'(1)] assms by (auto simp: blank_inv_def)
  have bf: "skip_buff (buf0 (buffers s')) = replicate NUMBER_OF_SEGMENTS (word_of_int NOT_USED)"
    using tick_buffers [OF s'(1), of BUF0] assms by (simp add: blank_inv_def get_buf_def)
  have calls: "\<forall>c \<in> set (spi_calls s'). tx_source c = SRC_VOID \<and> tx_word c = 0"
  proof (cases "inst = TIM6 \<and> state s = STATE_START_SENDING")
    case False
    then have "spi_calls s' = spi_calls s"
      using tick_spi_calls_other [OF s'(1)] by auto
    with assms show ?thesis by (simp add: blank_inv_def)
  next
    case True
    have a: "active_buf s = BUF0"
      using assms by (simp add: blank_inv_def active_buf_def)
    have "skip_buff (get_buf (active_buf s) s) ! unat (current_segment_index s)
            = word_of_int NOT_USED"
      using assms wf_lengths(4) [OF w] by (simp add: a get_buf_def blank_inv_def)
    then have "uint (skip_buff (get_buf (active_buf s) s) ! unat (current_segment_index s))
            = NOT_USED"
      by (simp add: NOT_USED_def)
    then have "spi_calls s' = spi_calls s
        @ [\<lparr>tx_segment = current_segment_index s, tx_source = SRC_VOID, tx_word = 0\<rparr>]"
      using start_sending_effect [OF w] True s'(1) by auto
    with assms show ?thesis by (simp add: blank_inv_def)
  qed
  from s' fl bf calls IRQ_TIM show ?thesis by (simp add: blank_inv_def)
qed

lemma blank_inv_run:
  "blank_inv s \<Longrightarrow> \<exists>s'. irq_run evs s = Some s' \<and> blank_inv s'"
proof (induction evs arbitrary: s)
  case Nil
  then show ?case by simp
next
  case (Cons e evs)
  from blank_inv_step [OF Cons.prems, of e]
  obtain s1 where "irq_step e s = Some s1" "blank_inv s1" by blast
  with Cons.IH [of s1] show ?case by simp
qed

lemma fold_fill:
  "fold (\<lambda>i sb. sb[i := x]) [0..<NUMBER_OF_SEGMENTS] (replicate NUMBER_OF_SEGMENTS y)
     = replicate NUMBER_OF_SEGMENTS x"
  by (simp add: upt_segments) (simp add: NUMBER_OF_SEGMENTS_def numeral_eq_Suc)

lemma init_blank:
  assumes "driver_7_seg_init hspi_p htim_p GPIOx pin tim_result driver_reset
             = (DRIVER_7_SEG_STATUS_OK, s)"
  shows "blank_inv s"
  using assms
  by (auto simp add: driver_7_seg_init_def Let_def HAL_GPIO_WritePin_def
      HAL_TIM_Base_Start_IT_def set_buf_def get_buf_def driver_reset_def zero_buffer_def
      fold_fill blank_inv_def driver_wf_def split: if_splits)

text \<open>
  C9. When \<open>driver_7_seg_init\<close> has succeeded on the reset state, the four thresholds
  of the active buffer are all \<open>NOT_USED\<close>, and as long as only interrupts happen (timer
  ticks and SPI completions, in any order and number, no frame being submitted) the
  callback never faults and every word it hands to the SPI is the blank word.
\<close>

theorem C9_blank_until_first_frame:
  assumes "driver_7_seg_init hspi_p htim_p GPIOx pin tim_result driver_reset
             = (DRIVER_7_SEG_STATUS_OK, s)"
  shows "skip_buff (get_buf (active_buf s) s)
           = replicate NUMBER_OF_SEGMENTS (word_of_int NOT_USED)
       \<and> (\<exists>s'. irq_run evs s = Some s'
              \<and> (\<forall>c \<in> set (spi_calls s'). tx_source c = SRC_VOID \<and> tx_word c = 0))"
proof -
  have b: "blank_inv s"
    using assms by (rule init_blank)
  then have "skip_buff (get_buf (active_buf s) s)
           = replicate NUMBER_OF_SEGMENTS (word_of_int NOT_USED)"
    by (simp add: blank_inv_def active_buf_def get_buf_def)
  moreover from blank_inv_run [OF b, of evs]
  have "\<exists>s'. irq_run evs s = Some s'
              \<and> (\<forall>c \<in> set (spi_calls s'). tx_source c = SRC_VOID \<and> tx_word c = 0)"
    by (auto simp: blank_inv_def)
  ultimately show ?thesis ..
qed

theorem C9_blank_until_first_frame_witness:
  "driver_7_seg_init (Some 1) (Some 2) (Some 3) 4 HAL_OK driver_reset
     = (DRIVER_7_SEG_STATUS_OK, driver_ready)
   \<and> skip_buff (get_buf (active_buf driver_ready) driver_ready)
       = replicate NUMBER_OF_SEGMENTS (word_of_int NOT_USED)
   \<and> (\<exists>s'. irq_run (irqs_one_digit @ irqs_one_digit) driver_ready = Some s'
          \<and> (\<forall>c \<in> set (spi_calls s'). tx_source c = SRC_VOID \<and> tx_word c = 0))
   \<and> map_option (map tx_source \<circ> spi_calls) (irq_run (irqs_one_digit @ irqs_one_digit) driver_ready)
       = Some [SRC_VOID, SRC_VOID]"
proof -
  have ok: "fst (driver_7_seg_init (Some 1) (Some 2) (Some 3) 4 HAL_OK driver_reset)
      = DRIVER_7_SEG_STATUS_OK"
    by (simp add: driver_7_seg_init_def Let_def)
  have i: "driver_7_seg_init (Some 1) (Some 2) (Some 3) 4 HAL_OK driver_reset
     = (DRIVER_7_SEG_STATUS_OK, driver_ready)"
    using ok by (simp add: driver_ready_def prod_eq_iff)
  have r: "map_option (map tx_source \<circ> spi_calls)
      (irq_run (irqs_one_digit @ irqs_one_digit) driver_ready) = Some [SRC_VOID, SRC_VOID]"
    by code_simp
  from C9_blank_until_first_frame [OF i, of "irqs_one_digit @ irqs_one_digit"] i r
  show ?thesis by simp
qed

subsection \<open>What a call leaves alone\<close>

lemma store_data_fields [simp]:
  "config (store_data b i w s) = config s"
  "current_active_buf_index (store_data b i w s) = current_active_buf_index s"
  "new_buffer_ready (store_data b i w s) = new_buffer_ready s"
  "state (store_data b i w s) = state s"
  "current_segment_index (store_data b i w s) = current_segment_index s"
  "data_buf (store_data b i w s) = data_buf s"
  "skip_buf (store_data b i w s) = skip_buf s"
  "spi_calls (store_data b i w s) = spi_calls s"
  "active_buf (store_data b i w s) = active_buf s"
  by (simp_all add: store_data_def set_buf_def active_buf_def split: buf_ref.splits)

lemma store_skip_fields [simp]:
  "config (store_skip b i w s) = config s"
  "current_active_buf_index (store_skip b i w s) = current_active_buf_index s"
  "new_buffer_ready (store_skip b i w s) = new_buffer_ready s"
  "state (store_skip b i w s) = state s"
  "current_segment_index (store_skip b i w s) = current_segment_index s"
  "data_buf (store_skip b i w s) = data_buf s"
  "skip_buf (store_skip b i w s) = skip_buf s"
  "spi_calls (store_skip b i w s) = spi_calls s"
  "active_buf (store_skip b i w s) = active_buf s"
  by (simp_all add: store_skip_def set_buf_def active_buf_def split: buf_ref.splits)

lemma copy_loop_fields:
  "copy_loop b d br idxs s = Some s' \<Longrightarrow>
     config s' = config s \<and> current_active_buf_index s' = current_active_buf_index s
     \<and> new_buffer_ready s' = new_buffer_ready s \<and> state s' = state s
     \<and> current_segment_index s' = current_segment_index s
     \<and> data_buf s' = data_buf s \<and> skip_buf s' = skip_buf s \<and> spi_calls s' = spi_calls s"
  by (induction idxs arbitrary: s) (auto split: if_splits)

lemma send_buffer_fields:
  assumes "driver_7_seg_send_buffer d b n s = Some (st, s')"
  shows "config s' = config s \<and> current_active_buf_index s' = current_active_buf_index s
     \<and> state s' = state s \<and> current_segment_index s' = current_segment_index s
     \<and> data_buf s' = data_buf s \<and> skip_buf s' = skip_buf s \<and> spi_calls s' = spi_calls s"
  using assms unfolding driver_7_seg_send_buffer_def
  by (auto split: if_splits option.splits dest!: wait_new_buffer_ready_returns copy_loop_fields)

lemma transmit_fields:
  assumes "char_gen_transmit c s = Some (st, s')"
  shows "config s' = config s \<and> current_active_buf_index s' = current_active_buf_index s
     \<and> state s' = state s \<and> current_segment_index s' = current_segment_index s
     \<and> data_buf s' = data_buf s \<and> skip_buf s' = skip_buf s \<and> spi_calls s' = spi_calls s"
  using assms
  by (auto simp: char_gen_transmit_def split: option.splits if_splits dest!: send_buffer_fields)

subsection \<open>When the buffers are swapped\<close>

lemma event_changes_active:
  assumes "event_step ev s = Some s'"
    and "current_active_buf_index s' \<noteq> current_active_buf_index s"
  shows "ev = EV_IRQ (IRQ_TIM TIM6) \<and> state s = STATE_PREPARE \<and> new_buffer_ready s = 1"
proof (cases ev)
  case (EV_IRQ e)
  show ?thesis
  proof (cases e)
    case (IRQ_TIM inst)
    with EV_IRQ assms tick_flag [of inst s s'] show ?thesis
      by (auto split: if_splits)
  next
    case (IRQ_SPI_TX_CPLT h)
    with EV_IRQ assms show ?thesis
      by (auto simp: HAL_SPI_TxCpltCallback_def split: if_splits)
  qed
next
  case (EV_INIT h t g p r)
  with assms show ?thesis
    by (auto simp: driver_7_seg_init_def Let_def HAL_GPIO_WritePin_def
        HAL_TIM_Base_Start_IT_def set_buf_def get_buf_def split: if_splits)
next
  case (EV_SEND_BUFFER d b n)
  with assms show ?thesis by (auto dest: send_buffer_fields)
next
  case (EV_TRANSMIT c)
  with assms show ?thesis by (auto dest: transmit_fields)
qed

lemma prepare_swaps:
  assumes "state s = STATE_PREPARE" "new_buffer_ready s = 1"
  shows "\<exists>s'. HAL_TIM_PeriodElapsedCallback TIM6 s = Some s'
     \<and> current_active_buf_index s' = current_active_buf_index s XOR 1
     \<and> new_buffer_ready s' = 0 \<and> state s' = STATE_START_SENDING
     \<and> current_segment_index s' = current_segment_index s
     \<and> data_buf s' = Some (active_buf s') \<and> skip_buf s' = Some (active_buf s')"
  using assms by (simp add: tick_defs active_buf_def)

text \<open>
  C1, as stated, fails. The run \<open>torn_scan_prefix\<close> from reset ends in
  \<open>STATE_PREPARE\<close> on digit 1 with the frame "2222" pending and the frame "1111"
  active; the next tick swaps the buffers there, at digit index 1. Over the scan of
  digits 0 to 3 the SPI is handed the first word of "1111" and then the second, third
  and fourth word of "2222": one scan reads two successfully submitted frames.
\<close>

theorem C1_swap_mid_scan_counterexample:
  "encode_frame config_1111 = Some [0xF901, 0xF902, 0xF904, 0xF908]
   \<and> encode_frame config_2222 = Some [0xA401, 0xA402, 0xA404, 0xA408]
   \<and> map_option state (run torn_scan_prefix driver_reset) = Some STATE_PREPARE
   \<and> map_option current_segment_index (run torn_scan_prefix driver_reset) = Some 1
   \<and> map_option new_buffer_ready (run torn_scan_prefix driver_reset) = Some 1
   \<and> map_option current_active_buf_index (run torn_scan_prefix driver_reset) = Some 1
   \<and> map_option current_active_buf_index
        (run (torn_scan_prefix @ [EV_IRQ (IRQ_TIM TIM6)]) driver_reset) = Some 0
   \<and> map_option (map tx_segment \<circ> spi_calls)
        (run (torn_scan_prefix @ digit_refresh @ digit_refresh @ digit_refresh) driver_reset)
        = Some [0, 1, 2, 3]
   \<and> map_option (map tx_word \<circ> spi_calls)
        (run (torn_scan_prefix @ digit_refresh @ digit_refresh @ digit_refresh) driver_reset)
        = Some [0xF901, 0xA402, 0xA404, 0xA408]"
  by code_simp

text \<open>
  C1, amended. The active buffer changes only on a timer tick taken in
  \<open>STATE_PREPARE\<close> with the ready flag at 1: no other event (another tick, the SPI
  callback, a call of init, send_buffer or transmit) changes it. Such a tick swaps
  whatever the digit index is: it clears the flag, keeps the digit index, goes on to
  \<open>STATE_START_SENDING\<close> and points \<open>data_buf\<close> and \<open>skip_buf\<close> to the newly active
  buffer. The swap is aligned with the refresh of one digit, not with the scan of four.
\<close>

theorem C1_swap_at_any_digit_prepare:
  assumes "event_step ev s = Some s'"
    and "state t = STATE_PREPARE" and "new_buffer_ready t = 1"
  shows "(current_active_buf_index s' = current_active_buf_index s
           \<or> (ev = EV_IRQ (IRQ_TIM TIM6) \<and> state s = STATE_PREPARE \<and> new_buffer_ready s = 1))
       \<and> (\<exists>t'. event_step (EV_IRQ (IRQ_TIM TIM6)) t = Some t'
              \<and> current_active_buf_index t' = current_active_buf_index t XOR 1
              \<and> new_buffer_ready t' = 0 \<and> state t' = STATE_START_SENDING
              \<and> current_segment_index t' = current_segment_index t
              \<and> data_buf t' = Some (active_buf t') \<and> skip_buf t' = Some (active_buf t'))"
  using event_changes_active [OF assms(1)] prepare_swaps [OF assms(2,3)] by auto

theorem C1_swap_at_any_digit_prepare_witness:
  "event_step (EV_IRQ (IRQ_SPI_TX_CPLT (Some 1))) driver_pending_digit1
     = Some (driver_pending_digit1\<lparr>spi_tranfer_complete := 1\<rparr>)
   \<and> (\<exists>t'. event_step (EV_IRQ (IRQ_TIM TIM6)) driver_pending_digit1 = Some t'
        \<and> current_active_buf_index t' = 1 \<and> new_buffer_ready t' = 0
        \<and> state t' = STATE_START_SENDING \<and> current_segment_index t' = 1
        \<and> data_buf t' = Some BUF1 \<and> skip_buf t' = Some BUF1)"
proof -
  have f: "state driver_pending_digit1 = STATE_PREPARE"
    "new_buffer_ready driver_pending_digit1 = 1"
    "current_active_buf_index driver_pending_digit1 = 0"
    "current_segment_index driver_pending_digit1 = 1"
    "hspi (config driver_pending_digit1) = Some 1"
    by code_simp+
  have e: "event_step (EV_IRQ (IRQ_SPI_TX_CPLT (Some 1))) driver_pending_digit1
      = Some (driver_pending_digit1\<lparr>spi_tranfer_complete := 1\<rparr>)"
    by (simp add: HAL_SPI_TxCpltCallback_def f)
  show ?thesis
    using C1_swap_at_any_digit_prepare [OF e f(1,2)] e
    by (auto simp: f active_buf_def)
qed

subsection \<open>The handoff of a frame\<close>

lemma get_buf_store_data:
  "get_buf b' (store_data b i w s)
     = (if b' = b then (get_buf b s)\<lparr>data := (data (get_buf b s))[i := w]\<rparr> else get_buf b' s)"
  by (cases b; cases b'; simp add: store_data_def set_buf_def get_buf_def)

lemma get_buf_store_skip:
  "get_buf b' (store_skip b i w s)
     = (if b' = b then (get_buf b s)\<lparr>skip_buff := (skip_buff (get_buf b s))[i := w]\<rparr> else get_buf b' s)"
  by (cases b; cases b'; simp add: store_skip_def set_buf_def get_buf_def)

lemma driver_wf_store_data [simp]: "driver_wf (store_data b i w s) = driver_wf s"
  by (cases b; simp add: driver_wf_def store_data_def set_buf_def get_buf_def active_buf_def)

lemma driver_wf_store_skip [simp]: "driver_wf (store_skip b i w s) = driver_wf s"
  by (cases b; simp add: driver_wf_def store_skip_def set_buf_def get_buf_def active_buf_def)

lemma other_buf_neq [simp]: "other_buf b \<noteq> b" "b \<noteq> other_buf b"
  by (cases b; simp add: other_buf_def)+

lemma take_Suc_update:
  assumes "take i xs = take i ys" "i < length xs" "i < length ys"
  shows "take (Suc i) (xs[i := ys ! i]) = take (Suc i) ys"
  using assms by (simp add: take_Suc_conv_app_nth)

lemma main_step_inv:
  assumes "driver_wf s" "initialized (config s) = Some DRIVER_7_SEG_STATUS_OK"
    "length d = NUMBER_OF_SEGMENTS" "length br = NUMBER_OF_SEGMENTS"
    "send_inv d br s0 pc s"
  shows "\<exists>pc' s'. send_buffer_step (Some d) (Some br) 4 (pc, s) = Some (pc', s')
      \<and> send_inv d br s0 pc' s' \<and> driver_wf s' \<and> config s' = config s"
proof (cases pc)
  case PC_CHECK
  with assms show ?thesis by (simp add: send_inv_def NUMBER_OF_SEGMENTS_def)
next
  case PC_WAIT
  with assms show ?thesis by (simp add: send_inv_def)
next
  case PC_SELECT
  with assms show ?thesis by (auto simp add: send_inv_def active_buf_def other_buf_def get_buf_def)
next
  case (PC_STORE_DATA b i)
  show ?thesis
  proof (cases "i < NUMBER_OF_SEGMENTS")
    case True
    with PC_STORE_DATA assms wf_lengths(1,2) [OF assms(1), of b] show ?thesis
      by (auto simp add: send_inv_def get_buf_store_data intro!: take_Suc_update)
  next
    case False
    with PC_STORE_DATA assms wf_lengths(1,2) [OF assms(1), of b] show ?thesis
      by (auto simp add: send_inv_def)
  qed
next
  case (PC_STORE_SKIP b i)
  with assms wf_lengths(1,2) [OF assms(1), of b] show ?thesis
    by (auto simp add: send_inv_def get_buf_store_skip take_Suc_conv_app_nth)
next
  case PC_SET_READY
  with assms show ?thesis by (simp add: send_inv_def driver_wf_def)
next
  case (PC_RETURN st)
  with assms show ?thesis by (simp add: send_inv_def)
qed


lemma active_buf_swap:
  assumes "current_active_buf_index s = 0 \<or> current_active_buf_index s = 1"
    and "current_active_buf_index s' = current_active_buf_index s XOR 1"
  shows "active_buf s' = other_buf (active_buf s)" "other_buf (active_buf s') = active_buf s"
  using assms by (auto simp: active_buf_def other_buf_def)

lemma send_inv_cong:
  assumes "\<And>b. get_buf b s' = get_buf b s" "active_buf s' = active_buf s"
    "new_buffer_ready s' = new_buffer_ready s"
  shows "send_inv d br s0 pc s' = send_inv d br s0 pc s"
  using assms by (cases pc) (simp_all add: send_inv_def)

lemma irq_step_inv:
  assumes "driver_wf s" "send_inv d br s0 pc s"
  shows "\<exists>s'. irq_step e s = Some s' \<and> send_inv d br s0 pc s' \<and> driver_wf s' \<and> config s' = config s"
proof (cases e)
  case (IRQ_SPI_TX_CPLT h)
  have "get_buf b (HAL_SPI_TxCpltCallback h s) = get_buf b s" for b
    by (simp add: HAL_SPI_TxCpltCallback_def)
  moreover have "active_buf (HAL_SPI_TxCpltCallback h s) = active_buf s"
    "new_buffer_ready (HAL_SPI_TxCpltCallback h s) = new_buffer_ready s"
    "config (HAL_SPI_TxCpltCallback h s) = config s"
    "driver_wf (HAL_SPI_TxCpltCallback h s)"
    using assms(1) by (simp_all add: HAL_SPI_TxCpltCallback_def driver_wf_def)
  ultimately show ?thesis
    using assms(2) IRQ_SPI_TX_CPLT send_inv_cong [of "HAL_SPI_TxCpltCallback h s" s d br s0 pc]
    by simp
next
  case (IRQ_TIM inst)
  obtain s' where s': "HAL_TIM_PeriodElapsedCallback inst s = Some s'" "driver_wf s'"
    using tick_wf [OF assms(1)] by blast
  have bufs: "get_buf b s' = get_buf b s" for b
    using tick_buffers [OF s'(1)] by simp
  have cfg: "config s' = config s"
    using tick_buffers [OF s'(1)] by simp
  have idx: "current_active_buf_index s = 0 \<or> current_active_buf_index s = 1"
    using assms(1) by (simp add: driver_wf_def)
  have inv': "send_inv d br s0 pc s'"
  proof (cases "inst = TIM6 \<and> state s = STATE_PREPARE \<and> new_buffer_ready s = 1")
    case False
    then have "current_active_buf_index s' = current_active_buf_index s"
      "new_buffer_ready s' = new_buffer_ready s"
      using tick_flag [OF s'(1)] by auto
    then have "active_buf s' = active_buf s" "new_buffer_ready s' = new_buffer_ready s"
      by (simp_all add: active_buf_def)
    with assms(2) bufs send_inv_cong [of s' s d br s0 pc] show ?thesis
      by simp
  next
    case True
    then have sw: "current_active_buf_index s' = current_active_buf_index s XOR 1"
      "new_buffer_ready s' = 0"
      using tick_flag [OF s'(1)] by auto
    note a = active_buf_swap [OF idx sw(1)]
    from True assms(2) bufs sw(2) a show ?thesis
      by (cases pc) (auto simp add: send_inv_def)
  qed
  from s' inv' cfg IRQ_TIM show ?thesis by simp
qed

lemma sched_run_inv:
  assumes "length d = NUMBER_OF_SEGMENTS" "length br = NUMBER_OF_SEGMENTS"
  shows "driver_wf s \<Longrightarrow> initialized (config s) = Some DRIVER_7_SEG_STATUS_OK \<Longrightarrow> send_inv d br s0 pc s
    \<Longrightarrow> \<exists>pc' s'. sched_run (Some d) (Some br) 4 sch (pc, s) = Some (pc', s') \<and> send_inv d br s0 pc' s' \<and> driver_wf s'"
proof (induction sch arbitrary: pc s)
  case Nil
  then show ?case by simp
next
  case (Cons x sch)
  show ?case
  proof (cases x)
    case MAIN
    from main_step_inv [OF Cons.prems(1,2) assms Cons.prems(3)]
    obtain pc1 s1 where st: "send_buffer_step (Some d) (Some br) 4 (pc, s) = Some (pc1, s1)"
      "send_inv d br s0 pc1 s1" "driver_wf s1" "config s1 = config s" by blast
    with Cons.IH [of s1 pc1] Cons.prems(2) MAIN show ?thesis by simp
  next
    case (INTR e)
    from irq_step_inv [OF Cons.prems(1,3), of e]
    obtain s1 where st: "irq_step e s = Some s1"
      "send_inv d br s0 pc s1" "driver_wf s1" "config s1 = config s" by blast
    with Cons.IH [of s1 pc] Cons.prems(2) INTR show ?thesis by simp
  qed
qed

lemma main_blocked:
  assumes "initialized (config s) = Some DRIVER_7_SEG_STATUS_OK" "new_buffer_ready s \<noteq> 0"
  shows "sched_run (Some d) (Some br) 4 (replicate (Suc n) MAIN) (PC_CHECK, s) = Some (PC_WAIT, s)"
proof -
  have w: "sched_run (Some d) (Some br) 4 (replicate n MAIN) (PC_WAIT, s) = Some (PC_WAIT, s)" for n
    using assms(2) by (induction n) simp_all
  show ?thesis using assms(1) w [of n] by (simp add: NUMBER_OF_SEGMENTS_def)
qed

lemma list4: "length xs = NUMBER_OF_SEGMENTS \<Longrightarrow> \<exists>a b c d. xs = [a, b, c, d]"
  by (auto simp: NUMBER_OF_SEGMENTS_def numeral_eq_Suc length_Suc_conv)

lemma replicate_13: "replicate 13 x = [x, x, x, x, x, x, x, x, x, x, x, x, x]"
  by (simp add: numeral_eq_Suc)

lemma copy_loop_content:
  assumes "driver_wf s" "length d = NUMBER_OF_SEGMENTS" "length br = NUMBER_OF_SEGMENTS"
    and "copy_loop b d br [0..<NUMBER_OF_SEGMENTS] s = Some s'"
  shows "get_buf b s' = \<lparr>data = d, skip_buff = map word_of_int br\<rparr>
       \<and> get_buf (other_buf b) s' = get_buf (other_buf b) s"
proof -
  obtain d0 d1 d2 d3 where d: "d = [d0, d1, d2, d3]"
    using list4 [OF assms(2)] by blast
  obtain b0 b1 b2 b3 where br: "br = [b0, b1, b2, b3]"
    using list4 [OF assms(3)] by blast
  obtain x0 x1 x2 x3 where x: "data (get_buf b s) = [x0, x1, x2, x3]"
    using list4 [OF wf_lengths(1) [OF assms(1)]] by blast
  obtain y0 y1 y2 y3 where y: "skip_buff (get_buf b s) = [y0, y1, y2, y3]"
    using list4 [OF wf_lengths(2) [OF assms(1)]] by blast
  from assms(4) show ?thesis
    by (auto simp add: upt_segments d br get_buf_store_data get_buf_store_skip x y)
qed

lemma send_buffer_completes:
  assumes "driver_wf s" "initialized (config s) = Some DRIVER_7_SEG_STATUS_OK"
    "new_buffer_ready s = 0" "length d = NUMBER_OF_SEGMENTS" "length br = NUMBER_OF_SEGMENTS"
  shows "\<exists>s'. driver_7_seg_send_buffer (Some d) (Some br) 4 s = Some (DRIVER_7_SEG_STATUS_OK, s')
     \<and> sched_run (Some d) (Some br) 4 (replicate 13 MAIN) (PC_CHECK, s)
          = Some (PC_RETURN DRIVER_7_SEG_STATUS_OK, s')
     \<and> new_buffer_ready s' = 1 \<and> active_buf s' = active_buf s
     \<and> get_buf (other_buf (active_buf s)) s' = \<lparr>data = d, skip_buff = map word_of_int br\<rparr>
     \<and> get_buf (active_buf s) s' = get_buf (active_buf s) s"
proof -
  define b where "b = other_buf (active_buf s)"
  have o: "(if current_active_buf_index s = 0 then BUF1 else BUF0) = b"
    by (simp add: b_def active_buf_def other_buf_def)
  obtain d0 d1 d2 d3 where d: "d = [d0, d1, d2, d3]"
    using list4 [OF assms(4)] by blast
  obtain b0 b1 b2 b3 where br: "br = [b0, b1, b2, b3]"
    using list4 [OF assms(5)] by blast
  obtain X where cl: "copy_loop b d br [0..<NUMBER_OF_SEGMENTS] s = Some X"
    using copy_loop_Some [of d br b s] assms(4,5) by (auto simp: NUMBER_OF_SEGMENTS_def)
  have X: "X = store_skip b 3 (word_of_int b3) (store_data b 3 d3
             (store_skip b 2 (word_of_int b2) (store_data b 2 d2
               (store_skip b 1 (word_of_int b1) (store_data b 1 d1
                 (store_skip b 0 (word_of_int b0) (store_data b 0 d0 s)))))))"
    using cl by (simp add: upt_segments d br)
  have big: "driver_7_seg_send_buffer (Some d) (Some br) 4 s
      = Some (DRIVER_7_SEG_STATUS_OK, X\<lparr>new_buffer_ready := 1\<rparr>)"
    unfolding driver_7_seg_send_buffer_def
    using assms(2,3) cl
    by (simp add: wait_new_buffer_ready_clear o NUMBER_OF_SEGMENTS_def del: copy_loop.simps)
  have sel: "send_buffer_step (Some d) (Some br) 4 (PC_SELECT, s) = Some (PC_STORE_DATA b 0, s)"
    using o by auto
  have micro: "sched_run (Some d) (Some br) 4 (replicate 13 MAIN) (PC_CHECK, s)
          = Some (PC_RETURN DRIVER_7_SEG_STATUS_OK, X\<lparr>new_buffer_ready := 1\<rparr>)"
    using assms(2,3)
    by (simp add: replicate_13 sel del: send_buffer_step.simps(3))
      (simp add: NUMBER_OF_SEGMENTS_def d br X numeral_2_eq_2 numeral_3_eq_3)
  have c: "get_buf b X = \<lparr>data = d, skip_buff = map word_of_int br\<rparr>
       \<and> get_buf (other_buf b) X = get_buf (other_buf b) s"
    using copy_loop_content [OF assms(1,4,5) cl] .
  have ob: "other_buf b = active_buf s"
    by (cases "active_buf s") (simp_all add: b_def other_buf_def)
  have f: "active_buf X = active_buf s" "new_buffer_ready X = 0"
    using copy_loop_fields [OF cl] assms(3) by (simp_all add: active_buf_def)
  show ?thesis
    using big micro c f by (simp add: ob b_def [symmetric])
qed

text \<open>
  C3. Let \<open>driver_7_seg_send_buffer\<close> be called with a frame of four words and four
  thresholds on an initialised driver.
  \<^item> While the ready flag is set (state \<open>s\<close>) the call does not get past its busy-wait:
    run on its own it never returns, and any number of its steps leaves it in the wait
    loop with the state untouched.
  \<^item> Under every interleaving of its statements with timer and SPI interrupts, the call
    never faults and \<open>send_inv\<close> holds: it stores only while the flag is 0, only into
    the buffer that is not active, and the flag is set after the last store, when the
    inactive buffer holds the whole frame.
  \<^item> With the flag clear (state \<open>t\<close>) the call returns OK after 13 steps: the inactive
    buffer then holds the frame, the active buffer and the choice of the active buffer
    are unchanged, and the flag is 1.
\<close>

theorem C3_send_buffer_handoff:
  assumes "driver_wf s" and "initialized (config s) = Some DRIVER_7_SEG_STATUS_OK"
    and "new_buffer_ready s \<noteq> 0"
    and "length d = NUMBER_OF_SEGMENTS" and "length br = NUMBER_OF_SEGMENTS"
    and "driver_wf t" and "initialized (config t) = Some DRIVER_7_SEG_STATUS_OK"
    and "new_buffer_ready t = 0"
  shows "driver_7_seg_send_buffer (Some d) (Some br) 4 s = None
       \<and> sched_run (Some d) (Some br) 4 (replicate (Suc n) MAIN) (PC_CHECK, s) = Some (PC_WAIT, s)
       \<and> (\<exists>pc s'. sched_run (Some d) (Some br) 4 sch (PC_CHECK, s) = Some (pc, s')
              \<and> send_inv d br s pc s')
       \<and> (\<exists>t'. driver_7_seg_send_buffer (Some d) (Some br) 4 t = Some (DRIVER_7_SEG_STATUS_OK, t')
              \<and> sched_run (Some d) (Some br) 4 (replicate 13 MAIN) (PC_CHECK, t)
                   = Some (PC_RETURN DRIVER_7_SEG_STATUS_OK, t')
              \<and> new_buffer_ready t' = 1 \<and> active_buf t' = active_buf t
              \<and> get_buf (other_buf (active_buf t)) t' = \<lparr>data = d, skip_buff = map word_of_int br\<rparr>
              \<and> get_buf (active_buf t) t' = get_buf (active_buf t) t)"
proof -
  have spins: "driver_7_seg_send_buffer (Some d) (Some br) 4 s = None"
    unfolding driver_7_seg_send_buffer_def
    using assms(2,3) by (simp add: wait_new_buffer_ready_spins NUMBER_OF_SEGMENTS_def)
  have blocked: "sched_run (Some d) (Some br) 4 (replicate (Suc n) MAIN) (PC_CHECK, s)
      = Some (PC_WAIT, s)"
    using assms(2,3) by (rule main_blocked)
  have start: "send_inv d br s PC_CHECK s"
    by (simp add: send_inv_def)
  have inv: "\<exists>pc s'. sched_run (Some d) (Some br) 4 sch (PC_CHECK, s) = Some (pc, s')
              \<and> send_inv d br s pc s'"
    using sched_run_inv [OF assms(4,5) assms(1,2) start, of sch] by blast
  from spins blocked inv send_buffer_completes [OF assms(6,7,8,4,5)]
  show ?thesis by (intro conjI)
qed

theorem C3_send_buffer_handoff_witness:
  "driver_7_seg_send_buffer (Some [1, 2, 3, 4]) (Some [0, 0, 0, 0]) 4 driver_pending = None
   \<and> sched_run (Some [1, 2, 3, 4]) (Some [0, 0, 0, 0]) 4 (replicate (Suc 2) MAIN)
        (PC_CHECK, driver_pending) = Some (PC_WAIT, driver_pending)
   \<and> (\<exists>pc s'. sched_run (Some [1, 2, 3, 4]) (Some [0, 0, 0, 0]) 4 sched_spin_then_copy
          (PC_CHECK, driver_pending) = Some (pc, s')
        \<and> send_inv [1, 2, 3, 4] [0, 0, 0, 0] driver_pending pc s')
   \<and> map_option fst (sched_run (Some [1, 2, 3, 4]) (Some [0, 0, 0, 0]) 4 sched_spin_then_copy
          (PC_CHECK, driver_pending)) = Some (PC_RETURN DRIVER_7_SEG_STATUS_OK)
   \<and> (\<exists>t'. driver_7_seg_send_buffer (Some [1, 2, 3, 4]) (Some [0, 0, 0, 0]) 4 driver_ready
          = Some (DRIVER_7_SEG_STATUS_OK, t')
        \<and> sched_run (Some [1, 2, 3, 4]) (Some [0, 0, 0, 0]) 4 (replicate 13 MAIN)
             (PC_CHECK, driver_ready) = Some (PC_RETURN DRIVER_7_SEG_STATUS_OK, t')
        \<and> new_buffer_ready t' = 1 \<and> active_buf t' = BUF0
        \<and> get_buf BUF1 t' = \<lparr>data = [1, 2, 3, 4], skip_buff = [0, 0, 0, 0]\<rparr>
        \<and> get_buf BUF0 t' = get_buf BUF0 driver_ready)"
proof -
  have p: "driver_wf driver_pending"
    "initialized (config driver_pending) = Some DRIVER_7_SEG_STATUS_OK"
    "new_buffer_ready driver_pending \<noteq> 0"
    by code_simp+
  have r: "driver_wf driver_ready"
    "initialized (config driver_ready) = Some DRIVER_7_SEG_STATUS_OK"
    "new_buffer_ready driver_ready = 0"
    "active_buf driver_ready = BUF0"
    by code_simp+
  have l: "length [1, 2, 3, 4 :: uint16_t] = NUMBER_OF_SEGMENTS"
    "length [0, 0, 0, 0 :: int] = NUMBER_OF_SEGMENTS"
    by (simp_all add: NUMBER_OF_SEGMENTS_def)
  have e: "map_option fst (sched_run (Some [1, 2, 3, 4]) (Some [0, 0, 0, 0]) 4 sched_spin_then_copy
          (PC_CHECK, driver_pending)) = Some (PC_RETURN DRIVER_7_SEG_STATUS_OK)"
    by code_simp
  show ?thesis
    using C3_send_buffer_handoff [OF p l r(1,2,3), of 2 sched_spin_then_copy] e
    by (simp add: r(4) other_buf_def)
qed

subsection \<open>Unsupported characters\<close>

lemma copy_loop_slot:
  assumes "length (data (get_buf b s)) = NUMBER_OF_SEGMENTS"
    and "length (skip_buff (get_buf b s)) = NUMBER_OF_SEGMENTS"
    and "i < NUMBER_OF_SEGMENTS"
    and "copy_loop b d br [0..<NUMBER_OF_SEGMENTS] s = Some s'"
  shows "data (get_buf b s') ! i = d ! i \<and> skip_buff (get_buf b s') ! i = word_of_int (br ! i)"
proof -
  obtain x0 x1 x2 x3 where x: "data (get_buf b s) = [x0, x1, x2, x3]"
    using list4 [OF assms(1)] by blast
  obtain y0 y1 y2 y3 where y: "skip_buff (get_buf b s) = [y0, y1, y2, y3]"
    using list4 [OF assms(2)] by blast
  have "i \<in> {0, 1, 2, 3}"
    using assms(3) by (auto simp: NUMBER_OF_SEGMENTS_def)
  with assms(4) show ?thesis
    by (auto simp add: upt_segments get_buf_store_data get_buf_store_skip x y split: if_splits)
qed

text \<open>
  C6. A character outside the supported set (the digits, H, h, F, f, C, c and the dash)
  is encoded as \<open>INVALID_CHAR\<close>, the pattern 0xFF with all segments off. It is not an
  error for \<open>char_gen_transmit\<close>: on an initialised driver with no frame pending the
  call returns OK, and what it has handed to the driver is the all-off pattern. After
  the call the slot of that digit in the inactive buffer holds 0xFF in its high byte
  (0x7F when the decimal point was requested: only bit 7 is cleared) over the one-hot mask
  of the digit, its threshold is the brightness given for the digit, and the frame is
  marked ready.
\<close>

theorem C6_unsupported_char_all_off:
  assumes "c \<notin> set ''0123456789HhFfCc-''"
    and "driver_wf s"
    and "initialized (config s) = Some DRIVER_7_SEG_STATUS_OK"
    and "new_buffer_ready s = 0"
    and "4 \<le> length (digits cfg)" and "4 \<le> length (periods cfg)"
    and "brightness cfg = Some br" and "4 \<le> length br"
    and "i < 4" and "digits cfg ! i = c"
  shows "find_code char_mappings c = INVALID_CHAR
         \<and> chars_val (find_code char_mappings c) = 0xFF
         \<and> (\<exists>s'. char_gen_transmit (Some cfg) s = Some (CHAR_GEN_STATUS_OK, s')
               \<and> data (get_buf (other_buf (active_buf s)) s') ! i
                    = out_word (if periods cfg ! i = PERIOD_ON then 0x7F else 0xFF) i
               \<and> skip_buff (get_buf (other_buf (active_buf s)) s') ! i = word_of_int (br ! i)
               \<and> new_buffer_ready s' = 1
               \<and> active_buf s' = active_buf s)"
proof -
  have fc: "find_code char_mappings c = INVALID_CHAR"
    by (rule find_code_absent) (use assms(1) in \<open>simp add: char_mappings_def\<close>)
  have sd: "segment_data c p = (if p = PERIOD_ON then 0x7F else 0xFF)" for p
    by (simp add: segment_data_def fc)
  let ?ws = "map (\<lambda>i. out_word (segment_data (digits cfg ! i) (periods cfg ! i)) i) [0, 1, 2, 3]"
  let ?b = "other_buf (active_buf s)"
  have enc: "encode_frame cfg = Some ?ws"
    using assms(5,6) by (rule encode_frame_Some)
  have "i \<in> {0, 1, 2, 3}" using \<open>i < 4\<close> by auto
  then have wi: "?ws ! i = out_word (if periods cfg ! i = PERIOD_ON then 0x7F else 0xFF) i"
    using assms(10) sd by auto
  have o: "(if current_active_buf_index s = 0 then BUF1 else BUF0) = ?b"
    by (simp add: active_buf_def other_buf_def)
  obtain s2 where cp: "copy_loop ?b ?ws br [0..<NUMBER_OF_SEGMENTS] s = Some s2"
    using copy_loop_Some [of ?ws br] assms(8) by auto
  have sb: "driver_7_seg_send_buffer (Some ?ws) (Some br) (word_of_nat DIGIT_NUM) s
          = Some (DRIVER_7_SEG_STATUS_OK, s2\<lparr>new_buffer_ready := 1\<rparr>)"
    unfolding driver_7_seg_send_buffer_def
    using assms(3,4) cp
    by (simp add: wait_new_buffer_ready_clear o DIGIT_NUM_def NUMBER_OF_SEGMENTS_def
        del: copy_loop.simps)
  then have tx: "char_gen_transmit (Some cfg) s
      = Some (CHAR_GEN_STATUS_OK, s2\<lparr>new_buffer_ready := 1\<rparr>)"
    by (simp add: char_gen_transmit_def enc assms(7))
  have i4: "i < NUMBER_OF_SEGMENTS"
    using \<open>i < 4\<close> by (simp add: NUMBER_OF_SEGMENTS_def)
  from copy_loop_slot [OF wf_lengths(1,2) [OF assms(2)] i4 cp]
  have slot: "data (get_buf ?b s2) ! i = ?ws ! i"
    "skip_buff (get_buf ?b s2) ! i = word_of_int (br ! i)"
    by simp_all
  have act: "active_buf s2 = active_buf s"
    using copy_loop_fields [OF cp] by (simp add: active_buf_def)
  from fc tx slot wi act show ?thesis by simp
qed

theorem C6_unsupported_char_all_off_witness:
  "find_code char_mappings (CHR ''A'') = INVALID_CHAR
   \<and> chars_val (find_code char_mappings (CHR ''A'')) = 0xFF
   \<and> (\<exists>s'. char_gen_transmit (Some config_unsupported) driver_ready
               = Some (CHAR_GEN_STATUS_OK, s')
         \<and> data (get_buf BUF1 s') ! 0 = out_word 0x7F 0
         \<and> skip_buff (get_buf BUF1 s') ! 0 = word_of_int LEVEL_5_MAX
         \<and> new_buffer_ready s' = 1
         \<and> active_buf s' = BUF0)
   \<and> map_option
        (\<lambda>(st, s'). (st, data (buf1 (buffers s')), skip_buff (buf1 (buffers s')), new_buffer_ready s'))
        (char_gen_transmit (Some config_unsupported) driver_ready)
       = Some (CHAR_GEN_STATUS_OK, [0x7F01, 0xF902, 0xFF04, 0xFF08], [0, 1, 5, 15], 1)"
proof -
  have r: "driver_wf driver_ready"
    "initialized (config driver_ready) = Some DRIVER_7_SEG_STATUS_OK"
    "new_buffer_ready driver_ready = 0"
    "active_buf driver_ready = BUF0"
    by code_simp+
  have e: "map_option
        (\<lambda>(st, s'). (st, data (buf1 (buffers s')), skip_buff (buf1 (buffers s')), new_buffer_ready s'))
        (char_gen_transmit (Some config_unsupported) driver_ready)
       = Some (CHAR_GEN_STATUS_OK, [0x7F01, 0xF902, 0xFF04, 0xFF08], [0, 1, 5, 15], 1)"
    by code_simp
  show ?thesis
    using C6_unsupported_char_all_off [of "CHR ''A''" driver_ready config_unsupported
        "[LEVEL_5_MAX, LEVEL_4, LEVEL_3, LEVEL_2]" 0] r e
    by (simp add: config_unsupported_def other_buf_def)
qed

subsection \<open>Dimming\<close>














end
